theory Spec2Isabelle
  imports Main
begin

section \<open>Values carried by messages\<close>

text \<open>
  Payloads reach the handlers of \<^verbatim>\<open>server.js\<close> as decoded JSON, or as
  \<^verbatim>\<open>undefined\<close> when the client sent no argument. \<open>JNum\<close> stands for the
  integer-valued numbers that JavaScript prints in plain decimal notation; fractions,
  exponents and binary attachments are not represented. \<open>JObj\<close> lists the own
  properties of a plain object, the first entry for a key being the property's value.
\<close>

datatype jsval =
    JUndefined
  | JNull
  | JBool bool
  | JNum int
  | JStr string
  | JArr "jsval list"
  | JObj "(string \<times> jsval) list"

text \<open>
  The only exception the handlers can raise is JavaScript's \<^verbatim>\<open>TypeError\<close>: from a
  property read on \<^verbatim>\<open>undefined\<close> or \<^verbatim>\<open>null\<close>, or from a string conversion.
  Nothing in \<^verbatim>\<open>server.js\<close> catches it; uncaught, it reaches the
  \<^verbatim>\<open>uncaughtException\<close> listener (lines 254-257), which logs it and exits the
  process with status 1. \<open>Inl TypeError\<close> is that outcome: the handler did not finish.
\<close>

datatype fault = TypeError

definition rbind :: "fault + 'a \<Rightarrow> ('a \<Rightarrow> fault + 'b) \<Rightarrow> fault + 'b" where
  "rbind m f = (case m of Inl e \<Rightarrow> Inl e | Inr x \<Rightarrow> f x)"

text \<open>
  Property read \<^verbatim>\<open>v.k\<close>, for the names the handlers read (\<^verbatim>\<open>eventId\<close>,
  \<^verbatim>\<open>judgeId\<close>, \<^verbatim>\<open>performanceId\<close>, \<^verbatim>\<open>entryId\<close>, \<^verbatim>\<open>status\<close>,
  \<^verbatim>\<open>musicCue\<close>, \<^verbatim>\<open>action\<close>, \<^verbatim>\<open>present\<close>): none of them is a built-in
  property of a string, number, boolean, array or of \<^verbatim>\<open>Object.prototype\<close>, so on every
  value but a plain object the read gives \<^verbatim>\<open>undefined\<close>; on \<^verbatim>\<open>undefined\<close> and
  \<^verbatim>\<open>null\<close> it throws. The parameter pattern \<^verbatim>\<open>({ eventId, judgeId })\<close> of
  \<^verbatim>\<open>join:judge\<close> reads its two properties the same way.
\<close>

fun get_prop :: "jsval \<Rightarrow> string \<Rightarrow> fault + jsval" where
  "get_prop JUndefined k = Inl TypeError"
| "get_prop JNull k = Inl TypeError"
| "get_prop (JObj kvs) k = Inr (case map_of kvs k of None \<Rightarrow> JUndefined | Some v \<Rightarrow> v)"
| "get_prop v k = Inr JUndefined"

fun digits :: "nat \<Rightarrow> string" where
  "digits n =
     (if n < 10 then [''0123456789'' ! n]
      else digits (n div 10) @ [''0123456789'' ! (n mod 10)])"

declare digits.simps [simp del]

definition number_to_string :: "int \<Rightarrow> string" where
  "number_to_string i = (if i < 0 then CHR ''-'' # digits (nat (- i)) else digits (nat i))"

text \<open>
  String conversion, as a template literal \<^verbatim>\<open>`${v}`\<close> performs it. An array is joined
  with commas, \<^verbatim>\<open>undefined\<close> and \<^verbatim>\<open>null\<close> elements printing as the empty string.
  A plain object inherits \<^verbatim>\<open>Object.prototype.toString\<close> and prints as
  \<^verbatim>\<open>[object Object]\<close>, unless it has an own property \<^verbatim>\<open>toString\<close>: a value decoded
  from JSON is never callable, the inherited \<^verbatim>\<open>valueOf\<close> returns the object itself,
  and the conversion throws.
\<close>

fun to_string :: "jsval \<Rightarrow> fault + string"
  and join_elems :: "jsval list \<Rightarrow> fault + string" where
  "to_string JUndefined = Inr ''undefined''"
| "to_string JNull = Inr ''null''"
| "to_string (JBool b) = Inr (if b then ''true'' else ''false'')"
| "to_string (JNum n) = Inr (number_to_string n)"
| "to_string (JStr s) = Inr s"
| "to_string (JArr xs) = join_elems xs"
| "to_string (JObj kvs) =
     (if ''toString'' \<in> fst ` set kvs then Inl TypeError else Inr ''[object Object]'')"
| "join_elems [] = Inr ''''"
| "join_elems (x # xs) =
     rbind (if x = JUndefined \<or> x = JNull then Inr '''' else to_string x)
       (\<lambda>s. if xs = [] then Inr s else rbind (join_elems xs) (\<lambda>r. Inr (s @ '','' @ r)))"

text \<open>The condition of \<^verbatim>\<open>v ? a : b\<close>.\<close>

fun truthy :: "jsval \<Rightarrow> bool" where
  "truthy JUndefined = False"
| "truthy JNull = False"
| "truthy (JBool b) = b"
| "truthy (JNum n) = (n \<noteq> 0)"
| "truthy (JStr s) = (s \<noteq> [])"
| "truthy v = True"

text \<open>The interpolation \<^verbatim>\<open>${data.k}\<close> inside a template literal.\<close>

definition interp :: "jsval \<Rightarrow> string \<Rightarrow> fault + string" where
  "interp d k = rbind (get_prop d k) to_string"

text \<open>
  \<^verbatim>\<open>console.log\<close> of a template literal: the interpolations are evaluated in order and
  the text goes to the process log, which is not part of the model.
\<close>

fun console_log :: "(fault + string) list \<Rightarrow> fault + unit" where
  "console_log [] = Inr ()"
| "console_log (p # ps) = rbind p (\<lambda>_. console_log ps)"

section \<open>Connections, rooms and outbound messages\<close>

text \<open>
  \<open>data\<close> is the attribute bag \<^verbatim>\<open>socket.data\<close>, \<open>None\<close> for a property never
  assigned. \<open>rooms\<close> holds the rooms the handlers joined the socket to; the private room
  the transport names after the socket's own id is left out.
\<close>

record sockdata =
  role :: "string option"
  judgeId :: "jsval option"
  eventId :: "jsval option"

record socket =
  rooms :: "string set"
  data :: sockdata

definition new_socket :: socket where
  "new_socket = \<lparr>rooms = {}, data = \<lparr>role = None, judgeId = None, eventId = None\<rparr>\<rparr>"

text \<open>\<^verbatim>\<open>socket.join(room)\<close>.\<close>

definition socket_join :: "string \<Rightarrow> socket \<Rightarrow> socket" where
  "socket_join r sock = sock\<lparr>rooms := insert r (rooms sock)\<rparr>"

text \<open>One call \<^verbatim>\<open>io.to(room).emit(event, payload)\<close>.\<close>

datatype emission = Emit (em_room: string) (em_event: string) (em_payload: jsval)

text \<open>The room name \<^verbatim>\<open>`<prefix>${v}`\<close>.\<close>

definition template :: "string \<Rightarrow> jsval \<Rightarrow> fault + string" where
  "template prefix v = rbind (to_string v) (\<lambda>s. Inr (prefix @ s))"

text \<open>
  The statement \<^verbatim>\<open>io.to(`<prefix>${data.eventId}`).emit(ev, arg)\<close>, appending to the
  messages sent so far.
\<close>

definition io_to_emit ::
  "string \<Rightarrow> jsval \<Rightarrow> string \<Rightarrow> jsval \<Rightarrow> emission list \<Rightarrow> fault + emission list" where
  "io_to_emit prefix d ev arg out =
     rbind (get_prop d ''eventId'') (\<lambda>eid.
     rbind (template prefix eid) (\<lambda>r.
     Inr (out @ [Emit r ev arg])))"

section \<open>The handlers of a connection\<close>

text \<open>
  Each definition below is one \<^verbatim>\<open>socket.on(...)\<close> registration of
  \<^verbatim>\<open>io.on('connection', ...)\<close> (lines 73-247), statement by statement. In the log
  lines only the interpolations of payload values are kept: \<^verbatim>\<open>socket.id\<close> and the
  client count are a string and a number the transport supplies.
\<close>

subsection \<open>Joining rooms (lines 77-122)\<close>

definition on_join_event :: "jsval \<Rightarrow> socket \<Rightarrow> fault + socket" where
  "on_join_event eid sock =
     rbind (template ''event:'' eid) (\<lambda>r.
     let sock1 = socket_join r sock in
     rbind (console_log [to_string eid]) (\<lambda>_.
     Inr sock1))"

definition on_join_judge :: "jsval \<Rightarrow> socket \<Rightarrow> fault + socket" where
  "on_join_judge arg sock =
     rbind (get_prop arg ''eventId'') (\<lambda>eid.
     rbind (get_prop arg ''judgeId'') (\<lambda>jid.
     rbind (template ''judges:'' eid) (\<lambda>r.
     let sock1 = socket_join r sock;
         sock2 = sock1\<lparr>data := (data sock1)\<lparr>judgeId := Some jid\<rparr>\<rparr>;
         sock3 = sock2\<lparr>data := (data sock2)\<lparr>eventId := Some eid\<rparr>\<rparr> in
     rbind (console_log [to_string jid, to_string eid]) (\<lambda>_.
     Inr sock3))))"

definition on_join_sound :: "jsval \<Rightarrow> socket \<Rightarrow> fault + socket" where
  "on_join_sound eid sock =
     rbind (template ''sound:'' eid) (\<lambda>r.
     let sock1 = socket_join r sock;
         sock2 = sock1\<lparr>data := (data sock1)\<lparr>role := Some ''sound''\<rparr>\<rparr>;
         sock3 = sock2\<lparr>data := (data sock2)\<lparr>eventId := Some eid\<rparr>\<rparr> in
     rbind (console_log [to_string eid]) (\<lambda>_.
     Inr sock3))"

definition on_join_backstage :: "jsval \<Rightarrow> socket \<Rightarrow> fault + socket" where
  "on_join_backstage eid sock =
     rbind (template ''backstage:'' eid) (\<lambda>r.
     let sock1 = socket_join r sock;
         sock2 = sock1\<lparr>data := (data sock1)\<lparr>role := Some ''backstage''\<rparr>\<rparr>;
         sock3 = sock2\<lparr>data := (data sock2)\<lparr>eventId := Some eid\<rparr>\<rparr> in
     rbind (console_log [to_string eid]) (\<lambda>_.
     Inr sock3))"

definition on_join_announcer :: "jsval \<Rightarrow> socket \<Rightarrow> fault + socket" where
  "on_join_announcer eid sock =
     rbind (template ''announcer:'' eid) (\<lambda>r.
     let sock1 = socket_join r sock;
         sock2 = sock1\<lparr>data := (data sock1)\<lparr>role := Some ''announcer''\<rparr>\<rparr>;
         sock3 = sock2\<lparr>data := (data sock2)\<lparr>eventId := Some eid\<rparr>\<rparr> in
     rbind (console_log [to_string eid]) (\<lambda>_.
     Inr sock3))"

definition on_join_registration :: "jsval \<Rightarrow> socket \<Rightarrow> fault + socket" where
  "on_join_registration eid sock =
     rbind (template ''registration:'' eid) (\<lambda>r.
     let sock1 = socket_join r sock;
         sock2 = sock1\<lparr>data := (data sock1)\<lparr>role := Some ''registration''\<rparr>\<rparr>;
         sock3 = sock2\<lparr>data := (data sock2)\<lparr>eventId := Some eid\<rparr>\<rparr> in
     rbind (console_log [to_string eid]) (\<lambda>_.
     Inr sock3))"

definition on_join_media :: "jsval \<Rightarrow> socket \<Rightarrow> fault + socket" where
  "on_join_media eid sock =
     rbind (template ''media:'' eid) (\<lambda>r.
     let sock1 = socket_join r sock;
         sock2 = sock1\<lparr>data := (data sock1)\<lparr>role := Some ''media''\<rparr>\<rparr>;
         sock3 = sock2\<lparr>data := (data sock2)\<lparr>eventId := Some eid\<rparr>\<rparr> in
     rbind (console_log [to_string eid]) (\<lambda>_.
     Inr sock3))"

subsection \<open>Rebroadcasting (lines 125-238)\<close>

definition on_performance_reorder :: "jsval \<Rightarrow> fault + emission list" where
  "on_performance_reorder d =
     rbind (console_log
       [interp d ''eventId'']) (\<lambda>_.
     rbind (io_to_emit ''event:'' d ''performance:reorder'' d []) (\<lambda>out.
     rbind (io_to_emit ''judges:'' d ''performance:reorder'' d out) (\<lambda>out.
     rbind (io_to_emit ''sound:'' d ''performance:reorder'' d out) (\<lambda>out.
     rbind (io_to_emit ''announcer:'' d ''performance:reorder'' d out) (\<lambda>out.
     rbind (io_to_emit ''registration:'' d ''performance:reorder'' d out) (\<lambda>out.
     rbind (io_to_emit ''media:'' d ''performance:reorder'' d out) (\<lambda>out.
     Inr out)))))))"

definition on_performance_status :: "jsval \<Rightarrow> fault + emission list" where
  "on_performance_status d =
     rbind (console_log
       [interp d ''performanceId'', interp d ''status'']) (\<lambda>_.
     rbind (io_to_emit ''event:'' d ''performance:status'' d []) (\<lambda>out.
     rbind (io_to_emit ''judges:'' d ''performance:status'' d out) (\<lambda>out.
     rbind (io_to_emit ''sound:'' d ''performance:status'' d out) (\<lambda>out.
     rbind (io_to_emit ''backstage:'' d ''performance:status'' d out) (\<lambda>out.
     rbind (io_to_emit ''announcer:'' d ''performance:status'' d out) (\<lambda>out.
     rbind (io_to_emit ''registration:'' d ''performance:status'' d out) (\<lambda>out.
     rbind (io_to_emit ''media:'' d ''performance:status'' d out) (\<lambda>out.
     Inr out))))))))"

definition on_performance_music_cue :: "jsval \<Rightarrow> fault + emission list" where
  "on_performance_music_cue d =
     rbind (console_log
       [interp d ''performanceId'', interp d ''musicCue'']) (\<lambda>_.
     rbind (io_to_emit ''event:'' d ''performance:music_cue'' d []) (\<lambda>out.
     rbind (io_to_emit ''judges:'' d ''performance:music_cue'' d out) (\<lambda>out.
     rbind (io_to_emit ''sound:'' d ''performance:music_cue'' d out) (\<lambda>out.
     rbind (io_to_emit ''backstage:'' d ''performance:music_cue'' d out) (\<lambda>out.
     rbind (io_to_emit ''announcer:'' d ''performance:music_cue'' d out) (\<lambda>out.
     rbind (io_to_emit ''registration:'' d ''performance:music_cue'' d out) (\<lambda>out.
     rbind (io_to_emit ''media:'' d ''performance:music_cue'' d out) (\<lambda>out.
     Inr out))))))))"

definition on_entry_music_updated :: "jsval \<Rightarrow> fault + emission list" where
  "on_entry_music_updated d =
     rbind (console_log
       [interp d ''entryId'']) (\<lambda>_.
     rbind (io_to_emit ''event:'' d ''entry:music_updated'' d []) (\<lambda>out.
     rbind (io_to_emit ''judges:'' d ''entry:music_updated'' d out) (\<lambda>out.
     rbind (io_to_emit ''sound:'' d ''entry:music_updated'' d out) (\<lambda>out.
     rbind (io_to_emit ''backstage:'' d ''entry:music_updated'' d out) (\<lambda>out.
     rbind (io_to_emit ''announcer:'' d ''entry:music_updated'' d out) (\<lambda>out.
     rbind (io_to_emit ''registration:'' d ''entry:music_updated'' d out) (\<lambda>out.
     rbind (io_to_emit ''media:'' d ''entry:music_updated'' d out) (\<lambda>out.
     Inr out))))))))"

definition on_entry_video_updated :: "jsval \<Rightarrow> fault + emission list" where
  "on_entry_video_updated d =
     rbind (console_log
       [interp d ''entryId'']) (\<lambda>_.
     rbind (io_to_emit ''event:'' d ''entry:video_updated'' d []) (\<lambda>out.
     rbind (io_to_emit ''judges:'' d ''entry:video_updated'' d out) (\<lambda>out.
     rbind (io_to_emit ''sound:'' d ''entry:video_updated'' d out) (\<lambda>out.
     rbind (io_to_emit ''backstage:'' d ''entry:video_updated'' d out) (\<lambda>out.
     rbind (io_to_emit ''announcer:'' d ''entry:video_updated'' d out) (\<lambda>out.
     rbind (io_to_emit ''registration:'' d ''entry:video_updated'' d out) (\<lambda>out.
     rbind (io_to_emit ''media:'' d ''entry:video_updated'' d out) (\<lambda>out.
     Inr out))))))))"

definition on_event_control :: "jsval \<Rightarrow> fault + emission list" where
  "on_event_control d =
     rbind (console_log
       [interp d ''action'', interp d ''eventId'']) (\<lambda>_.
     rbind (io_to_emit ''event:'' d ''event:control'' d []) (\<lambda>out.
     rbind (io_to_emit ''judges:'' d ''event:control'' d out) (\<lambda>out.
     rbind (io_to_emit ''sound:'' d ''event:control'' d out) (\<lambda>out.
     rbind (io_to_emit ''announcer:'' d ''event:control'' d out) (\<lambda>out.
     rbind (io_to_emit ''registration:'' d ''event:control'' d out) (\<lambda>out.
     rbind (io_to_emit ''media:'' d ''event:control'' d out) (\<lambda>out.
     Inr out)))))))"

definition on_presence_update :: "jsval \<Rightarrow> fault + emission list" where
  "on_presence_update d =
     rbind (console_log
       [interp d ''performanceId'',
        rbind (get_prop d ''present'') (\<lambda>v. Inr (if truthy v then ''Present'' else ''Absent''))]) (\<lambda>_.
     rbind (io_to_emit ''event:'' d ''presence:update'' d []) (\<lambda>out.
     rbind (io_to_emit ''backstage:'' d ''presence:update'' d out) (\<lambda>out.
     rbind (io_to_emit ''announcer:'' d ''presence:update'' d out) (\<lambda>out.
     rbind (io_to_emit ''registration:'' d ''presence:update'' d out) (\<lambda>out.
     rbind (io_to_emit ''media:'' d ''presence:update'' d out) (\<lambda>out.
     Inr out))))))"

definition on_performance_announced :: "jsval \<Rightarrow> fault + emission list" where
  "on_performance_announced d =
     rbind (console_log
       [interp d ''performanceId'']) (\<lambda>_.
     rbind (io_to_emit ''event:'' d ''performance:announced'' d []) (\<lambda>out.
     rbind (io_to_emit ''backstage:'' d ''performance:announced'' d out) (\<lambda>out.
     rbind (io_to_emit ''judges:'' d ''performance:announced'' d out) (\<lambda>out.
     rbind (io_to_emit ''sound:'' d ''performance:announced'' d out) (\<lambda>out.
     rbind (io_to_emit ''registration:'' d ''performance:announced'' d out) (\<lambda>out.
     rbind (io_to_emit ''media:'' d ''performance:announced'' d out) (\<lambda>out.
     Inr out)))))))"

text \<open>
  \<^verbatim>\<open>test:notification\<close> logs the payload as a separate argument of
  \<^verbatim>\<open>console.log\<close>, which inspects it without converting it to a string, and sends an
  object built on the spot.
\<close>

definition on_test_notification :: "jsval \<Rightarrow> fault + emission list" where
  "on_test_notification d =
     rbind (get_prop d ''eventId'') (\<lambda>eid.
     rbind (template ''event:'' eid) (\<lambda>r.
     rbind (get_prop d ''eventId'') (\<lambda>eid'.
     Inr [Emit r ''notification''
            (JObj [(''type'', JStr ''info''),
                   (''message'', JStr ''Test notification from backstage!''),
                   (''eventId'', eid')])])))"

subsection \<open>Lifecycle listeners (lines 240-246)\<close>

text \<open>
  Both only write to the log. The transport itself takes a disconnected socket out of its
  rooms; \<^verbatim>\<open>server.js\<close> has no code for it.
\<close>

definition on_disconnect :: "jsval \<Rightarrow> fault + unit" where
  "on_disconnect reason = console_log [to_string reason]"

definition on_error :: "jsval \<Rightarrow> fault + unit" where
  "on_error err = Inr ()"

subsection \<open>The listeners by event name\<close>

text \<open>
  \<open>handler ev arg sock\<close> runs the listener that \<^verbatim>\<open>server.js\<close> registers under the
  name \<open>ev\<close>, with argument \<open>arg\<close>, on the socket: the result is the socket after the
  listener ran and the messages it sent, in order, or the exception. It is \<open>None\<close> for
  a name under which \<^verbatim>\<open>server.js\<close> registers nothing: then no code of the file runs,
  and what becomes of the message is the transport's business (it may drop it, or refuse it
  and close the connection, as it does for the names it reserves for itself).
\<close>

definition joined :: "fault + socket \<Rightarrow> fault + socket \<times> emission list" where
  "joined m = rbind m (\<lambda>sock. Inr (sock, []))"

definition sent :: "socket \<Rightarrow> fault + emission list \<Rightarrow> fault + socket \<times> emission list" where
  "sent sock m = rbind m (\<lambda>out. Inr (sock, out))"

definition logged :: "socket \<Rightarrow> fault + unit \<Rightarrow> fault + socket \<times> emission list" where
  "logged sock m = rbind m (\<lambda>_. Inr (sock, []))"

definition handler :: "string \<Rightarrow> jsval \<Rightarrow> socket \<Rightarrow> (fault + socket \<times> emission list) option" where
  "handler ev arg sock =
     (if ev = ''join:event'' then Some (joined (on_join_event arg sock))
      else if ev = ''join:judge'' then Some (joined (on_join_judge arg sock))
      else if ev = ''join:sound'' then Some (joined (on_join_sound arg sock))
      else if ev = ''join:backstage'' then Some (joined (on_join_backstage arg sock))
      else if ev = ''join:announcer'' then Some (joined (on_join_announcer arg sock))
      else if ev = ''join:registration'' then Some (joined (on_join_registration arg sock))
      else if ev = ''join:media'' then Some (joined (on_join_media arg sock))
      else if ev = ''performance:reorder'' then Some (sent sock (on_performance_reorder arg))
      else if ev = ''performance:status'' then Some (sent sock (on_performance_status arg))
      else if ev = ''performance:music_cue'' then Some (sent sock (on_performance_music_cue arg))
      else if ev = ''entry:music_updated'' then Some (sent sock (on_entry_music_updated arg))
      else if ev = ''entry:video_updated'' then Some (sent sock (on_entry_video_updated arg))
      else if ev = ''event:control'' then Some (sent sock (on_event_control arg))
      else if ev = ''presence:update'' then Some (sent sock (on_presence_update arg))
      else if ev = ''performance:announced'' then Some (sent sock (on_performance_announced arg))
      else if ev = ''test:notification'' then Some (sent sock (on_test_notification arg))
      else if ev = ''disconnect'' then Some (logged sock (on_disconnect arg))
      else if ev = ''error'' then Some (logged sock (on_error arg))
      else None)"

section \<open>The server: every connection's socket\<close>

text \<open>
  The server state maps a connection id to its socket. \<open>receive\<close> is the transport
  handing the listener of \<open>ev\<close> one inbound message of connection \<open>c\<close> (for
  \<^verbatim>\<open>disconnect\<close> and \<^verbatim>\<open>error\<close>, one lifecycle event); it is \<open>None\<close> when
  there is no such listener. \<open>delivered\<close> is what connection \<open>c\<close> gets of the messages
  sent: \<^verbatim>\<open>io.to(room).emit\<close> reaches every socket that is in the room, the sender's
  included (the handlers never use \<^verbatim>\<open>socket.to\<close> or \<^verbatim>\<open>socket.broadcast\<close>).
\<close>

type_synonym server = "string \<Rightarrow> socket"

definition no_sockets :: server where
  "no_sockets = (\<lambda>c. new_socket)"

definition receive ::
  "server \<Rightarrow> string \<Rightarrow> string \<Rightarrow> jsval \<Rightarrow> (fault + server \<times> emission list) option" where
  "receive srv c ev arg =
     (case handler ev arg (srv c) of
        None \<Rightarrow> None
      | Some r \<Rightarrow> Some (rbind r (\<lambda>(sock, out). Inr (srv(c := sock), out))))"

text \<open>
  Two inbound messages one after the other: the second is handled in the state the first
  left. After an exception there is no second (the process has exited).
\<close>

definition and_then ::
  "(fault + 'a) option \<Rightarrow> ('a \<Rightarrow> (fault + 'b) option) \<Rightarrow> (fault + 'b) option" where
  "and_then m f =
     (case m of None \<Rightarrow> None | Some (Inl e) \<Rightarrow> Some (Inl e) | Some (Inr x) \<Rightarrow> f x)"

definition delivered :: "server \<Rightarrow> emission list \<Rightarrow> string \<Rightarrow> (string \<times> jsval) list" where
  "delivered srv out c =
     map (\<lambda>e. (em_event e, em_payload e)) (filter (\<lambda>e. em_room e \<in> rooms (srv c)) out)"

section \<open>The dispatch table of the specification\<close>

text \<open>
  The names below are those of the \<^verbatim>\<open>socket.on\<close> registrations. The table
  \<open>spec_destinations\<close> is written from section 4.2 of the specification, not from the
  handlers: it lists, per inbound event, the prefixes of the destination rooms in the
  table's order. The theorems compare the handlers with it.
\<close>

definition join_events :: "string list" where
  "join_events =
     [''join:event'', ''join:judge'', ''join:sound'', ''join:backstage'', ''join:announcer'',
      ''join:registration'', ''join:media'']"

definition forwarding_events :: "string list" where
  "forwarding_events =
     [''performance:reorder'', ''performance:status'', ''performance:music_cue'',
      ''entry:music_updated'', ''entry:video_updated'', ''event:control'',
      ''presence:update'', ''performance:announced'']"

definition dispatch_events :: "string list" where
  "dispatch_events = forwarding_events @ [''test:notification'']"

definition registered_events :: "string list" where
  "registered_events = join_events @ dispatch_events @ [''disconnect'', ''error'']"

definition room_prefixes :: "string list" where
  "room_prefixes =
     [''event:'', ''judges:'', ''sound:'', ''backstage:'', ''announcer:'', ''registration:'',
      ''media:'']"

definition spec_destinations :: "string \<Rightarrow> string list" where
  "spec_destinations ev =
     (if ev = ''performance:reorder'' \<or> ev = ''event:control'' then
        [''event:'', ''judges:'', ''sound:'', ''announcer:'', ''registration:'', ''media:'']
      else if ev = ''performance:status'' \<or> ev = ''performance:music_cue''
              \<or> ev = ''entry:music_updated'' \<or> ev = ''entry:video_updated'' then
        [''event:'', ''judges:'', ''sound:'', ''backstage:'', ''announcer:'',
         ''registration:'', ''media:'']
      else if ev = ''presence:update'' then
        [''event:'', ''backstage:'', ''announcer:'', ''registration:'', ''media:'']
      else if ev = ''performance:announced'' then
        [''event:'', ''backstage:'', ''judges:'', ''sound:'', ''registration:'', ''media:'']
      else if ev = ''test:notification'' then [''event:'']
      else [])"

definition spec_out_event :: "string \<Rightarrow> string" where
  "spec_out_event ev = (if ev = ''test:notification'' then ''notification'' else ev)"

definition spec_out_payload :: "string \<Rightarrow> jsval \<Rightarrow> jsval \<Rightarrow> jsval" where
  "spec_out_payload ev d eid =
     (if ev = ''test:notification'' then
        JObj [(''type'', JStr ''info''),
              (''message'', JStr ''Test notification from backstage!''),
              (''eventId'', eid)]
      else d)"

text \<open>
  The payload fields a handler interpolates into its log line before it sends anything
  (\<^verbatim>\<open>test:notification\<close> interpolates none).
\<close>

definition logged_fields :: "string \<Rightarrow> string list" where
  "logged_fields ev =
     (if ev = ''performance:reorder'' then [''eventId'']
      else if ev = ''performance:status'' then [''performanceId'', ''status'']
      else if ev = ''performance:music_cue'' then [''performanceId'', ''musicCue'']
      else if ev = ''entry:music_updated'' \<or> ev = ''entry:video_updated'' then [''entryId'']
      else if ev = ''event:control'' then [''action'', ''eventId'']
      else if ev = ''presence:update'' \<or> ev = ''performance:announced'' then
        [''performanceId'']
      else [])"

text \<open>
  The room prefixes for which a rebroadcast handler has no \<^verbatim>\<open>io.to(...)\<close> statement.
\<close>

definition left_out :: "string \<Rightarrow> string list" where
  "left_out ev =
     (if ev = ''performance:reorder'' \<or> ev = ''event:control'' then [''backstage:'']
      else if ev = ''presence:update'' then [''judges:'', ''sound:'']
      else if ev = ''performance:announced'' then [''announcer:'']
      else if ev = ''test:notification'' then
        [''judges:'', ''sound:'', ''backstage:'', ''announcer:'', ''registration:'', ''media:'']
      else [])"

text \<open>The rooms whose names the join handlers build from an event id printed as \<open>e\<close>.\<close>

definition event_rooms :: "string \<Rightarrow> string set" where
  "event_rooms e = (\<lambda>p. p @ e) ` set room_prefixes"

text \<open>
  The table-driven dispatcher of the specification: log, read \<^verbatim>\<open>eventId\<close>, send
  to every listed room.
\<close>

definition spec_dispatch :: "string \<Rightarrow> jsval \<Rightarrow> socket \<Rightarrow> fault + socket \<times> emission list" where
  "spec_dispatch ev d sock =
     rbind (console_log (map (interp d) (logged_fields ev))) (\<lambda>_.
     rbind (get_prop d ''eventId'') (\<lambda>eid.
     rbind (to_string eid) (\<lambda>e.
     Inr (sock, map (\<lambda>p. Emit (p @ e) (spec_out_event ev) (spec_out_payload ev d eid))
                  (spec_destinations ev)))))"

section \<open>Example payloads and server states\<close>

text \<open>
  \<^verbatim>\<open>{eventId:"evt1", performanceId:"p1", status:"done"}\<close>, the same payload with
  \<^verbatim>\<open>eventId: null\<close>, and the same with a \<^verbatim>\<open>performanceId\<close> that cannot be
  converted to a string.
\<close>

definition status_evt1 :: jsval where
  "status_evt1 =
     JObj [(''eventId'', JStr ''evt1''), (''performanceId'', JStr ''p1''),
           (''status'', JStr ''done'')]"

definition status_null :: jsval where
  "status_null =
     JObj [(''eventId'', JNull), (''performanceId'', JStr ''p1''), (''status'', JStr ''done'')]"

definition status_unprintable :: jsval where
  "status_unprintable =
     JObj [(''eventId'', JStr ''evt1''),
           (''performanceId'', JObj [(''toString'', JNum 1)]),
           (''status'', JStr ''done'')]"

text \<open>The messages \<^verbatim>\<open>performance:status\<close> sends for a payload \<open>d\<close> of event \<open>e\<close>.\<close>

definition status_sent :: "string \<Rightarrow> jsval \<Rightarrow> emission list" where
  "status_sent e d =
     [Emit (''event:'' @ e) ''performance:status'' d,
      Emit (''judges:'' @ e) ''performance:status'' d,
      Emit (''sound:'' @ e) ''performance:status'' d,
      Emit (''backstage:'' @ e) ''performance:status'' d,
      Emit (''announcer:'' @ e) ''performance:status'' d,
      Emit (''registration:'' @ e) ''performance:status'' d,
      Emit (''media:'' @ e) ''performance:status'' d]"

text \<open>The messages \<^verbatim>\<open>performance:reorder\<close> sends for a payload \<open>d\<close> of event \<open>e\<close>.\<close>

definition reorder_sent :: "string \<Rightarrow> jsval \<Rightarrow> emission list" where
  "reorder_sent e d =
     [Emit (''event:'' @ e) ''performance:reorder'' d,
      Emit (''judges:'' @ e) ''performance:reorder'' d,
      Emit (''sound:'' @ e) ''performance:reorder'' d,
      Emit (''announcer:'' @ e) ''performance:reorder'' d,
      Emit (''registration:'' @ e) ''performance:reorder'' d,
      Emit (''media:'' @ e) ''performance:reorder'' d]"

text \<open>A server on which connection \<open>c\<close> is in room \<open>r\<close> and nobody is anywhere else.\<close>

definition only_member :: "string \<Rightarrow> string \<Rightarrow> server" where
  "only_member c r = no_sockets(c := socket_join r new_socket)"

text \<open>Connection \<^verbatim>\<open>c2\<close> judges event \<^verbatim>\<open>evt1\<close>, connection \<^verbatim>\<open>c3\<close> event \<^verbatim>\<open>evt2\<close>.\<close>

definition two_judges :: server where
  "two_judges =
     no_sockets(''c2'' := socket_join ''judges:evt1'' new_socket,
                ''c3'' := socket_join ''judges:evt2'' new_socket)"

section \<open>Basic facts\<close>

lemma rbind_Inl [simp]: "rbind (Inl e) f = Inl e"
  by (simp add: rbind_def)

lemma rbind_Inr [simp]: "rbind (Inr x) f = f x"
  by (simp add: rbind_def)

lemma rbind_assoc [simp]: "rbind (rbind m f) g = rbind m (\<lambda>x. rbind (f x) g)"
  by (cases m) simp_all

lemma io_to_emit_cases:
  "io_to_emit p d ev a out =
     rbind (get_prop d ''eventId'') (\<lambda>eid. rbind (to_string eid) (\<lambda>e.
       Inr (out @ [Emit (p @ e) ev a])))"
  by (cases "get_prop d ''eventId''") (simp_all add: io_to_emit_def template_def)

lemma get_prop_skip: "get_prop d k = Inr v \<Longrightarrow> rbind (get_prop d k') (\<lambda>_. c) = c"
  by (cases d) simp_all

lemma get_prop_twice:
  "rbind (get_prop d k) (\<lambda>v. rbind (get_prop d k') h) = rbind (get_prop d k') h"
  by (cases d) simp_all

lemma on_performance_reorder_eq:
  "on_performance_reorder d =
     rbind (console_log [interp d ''eventId'']) (\<lambda>_.
     rbind (get_prop d ''eventId'') (\<lambda>eid. rbind (to_string eid) (\<lambda>e.
       Inr (map (\<lambda>p. Emit (p @ e) ''performance:reorder'' d)
         [''event:'', ''judges:'', ''sound:'', ''announcer:'', ''registration:'', ''media:'']))))"
proof (cases "get_prop d ''eventId''")
  case (Inl f)
  then show ?thesis by (simp add: on_performance_reorder_def io_to_emit_cases get_prop_twice)
next
  case (Inr eid)
  then show ?thesis
    by (cases "to_string eid") (simp_all add: on_performance_reorder_def io_to_emit_cases get_prop_twice)
qed

lemma on_performance_status_eq:
  "on_performance_status d =
     rbind (console_log [interp d ''performanceId'', interp d ''status'']) (\<lambda>_.
     rbind (get_prop d ''eventId'') (\<lambda>eid. rbind (to_string eid) (\<lambda>e.
       Inr (map (\<lambda>p. Emit (p @ e) ''performance:status'' d)
         [''event:'', ''judges:'', ''sound:'', ''backstage:'', ''announcer:'', ''registration:'', ''media:'']))))"
proof (cases "get_prop d ''eventId''")
  case (Inl f)
  then show ?thesis by (simp add: on_performance_status_def io_to_emit_cases get_prop_twice)
next
  case (Inr eid)
  then show ?thesis
    by (cases "to_string eid") (simp_all add: on_performance_status_def io_to_emit_cases get_prop_twice)
qed

lemma on_performance_music_cue_eq:
  "on_performance_music_cue d =
     rbind (console_log [interp d ''performanceId'', interp d ''musicCue'']) (\<lambda>_.
     rbind (get_prop d ''eventId'') (\<lambda>eid. rbind (to_string eid) (\<lambda>e.
       Inr (map (\<lambda>p. Emit (p @ e) ''performance:music_cue'' d)
         [''event:'', ''judges:'', ''sound:'', ''backstage:'', ''announcer:'', ''registration:'', ''media:'']))))"
proof (cases "get_prop d ''eventId''")
  case (Inl f)
  then show ?thesis by (simp add: on_performance_music_cue_def io_to_emit_cases get_prop_twice)
next
  case (Inr eid)
  then show ?thesis
    by (cases "to_string eid") (simp_all add: on_performance_music_cue_def io_to_emit_cases get_prop_twice)
qed

lemma on_entry_music_updated_eq:
  "on_entry_music_updated d =
     rbind (console_log [interp d ''entryId'']) (\<lambda>_.
     rbind (get_prop d ''eventId'') (\<lambda>eid. rbind (to_string eid) (\<lambda>e.
       Inr (map (\<lambda>p. Emit (p @ e) ''entry:music_updated'' d)
         [''event:'', ''judges:'', ''sound:'', ''backstage:'', ''announcer:'', ''registration:'', ''media:'']))))"
proof (cases "get_prop d ''eventId''")
  case (Inl f)
  then show ?thesis by (simp add: on_entry_music_updated_def io_to_emit_cases get_prop_twice)
next
  case (Inr eid)
  then show ?thesis
    by (cases "to_string eid") (simp_all add: on_entry_music_updated_def io_to_emit_cases get_prop_twice)
qed

lemma on_entry_video_updated_eq:
  "on_entry_video_updated d =
     rbind (console_log [interp d ''entryId'']) (\<lambda>_.
     rbind (get_prop d ''eventId'') (\<lambda>eid. rbind (to_string eid) (\<lambda>e.
       Inr (map (\<lambda>p. Emit (p @ e) ''entry:video_updated'' d)
         [''event:'', ''judges:'', ''sound:'', ''backstage:'', ''announcer:'', ''registration:'', ''media:'']))))"
proof (cases "get_prop d ''eventId''")
  case (Inl f)
  then show ?thesis by (simp add: on_entry_video_updated_def io_to_emit_cases get_prop_twice)
next
  case (Inr eid)
  then show ?thesis
    by (cases "to_string eid") (simp_all add: on_entry_video_updated_def io_to_emit_cases get_prop_twice)
qed

lemma on_event_control_eq:
  "on_event_control d =
     rbind (console_log [interp d ''action'', interp d ''eventId'']) (\<lambda>_.
     rbind (get_prop d ''eventId'') (\<lambda>eid. rbind (to_string eid) (\<lambda>e.
       Inr (map (\<lambda>p. Emit (p @ e) ''event:control'' d)
         [''event:'', ''judges:'', ''sound:'', ''announcer:'', ''registration:'', ''media:'']))))"
proof (cases "get_prop d ''eventId''")
  case (Inl f)
  then show ?thesis by (simp add: on_event_control_def io_to_emit_cases get_prop_twice)
next
  case (Inr eid)
  then show ?thesis
    by (cases "to_string eid") (simp_all add: on_event_control_def io_to_emit_cases get_prop_twice)
qed

lemma on_presence_update_eq:
  "on_presence_update d =
     rbind (console_log [interp d ''performanceId'']) (\<lambda>_.
     rbind (get_prop d ''eventId'') (\<lambda>eid. rbind (to_string eid) (\<lambda>e.
       Inr (map (\<lambda>p. Emit (p @ e) ''presence:update'' d)
         [''event:'', ''backstage:'', ''announcer:'', ''registration:'', ''media:'']))))"
proof (cases "get_prop d ''eventId''")
  case (Inl f)
  then have "d = JUndefined \<or> d = JNull" by (cases d) simp_all
  then show ?thesis by (auto simp add: on_presence_update_def io_to_emit_cases interp_def)
next
  case (Inr eid)
  then show ?thesis
    by (cases "to_string eid")
      (simp_all add: on_presence_update_def io_to_emit_cases get_prop_skip [OF Inr])
qed

lemma on_performance_announced_eq:
  "on_performance_announced d =
     rbind (console_log [interp d ''performanceId'']) (\<lambda>_.
     rbind (get_prop d ''eventId'') (\<lambda>eid. rbind (to_string eid) (\<lambda>e.
       Inr (map (\<lambda>p. Emit (p @ e) ''performance:announced'' d)
         [''event:'', ''backstage:'', ''judges:'', ''sound:'', ''registration:'', ''media:'']))))"
proof (cases "get_prop d ''eventId''")
  case (Inl f)
  then show ?thesis by (simp add: on_performance_announced_def io_to_emit_cases get_prop_twice)
next
  case (Inr eid)
  then show ?thesis
    by (cases "to_string eid") (simp_all add: on_performance_announced_def io_to_emit_cases get_prop_twice)
qed

lemmas forward_eqs =
  on_performance_reorder_eq on_performance_status_eq on_performance_music_cue_eq
  on_entry_music_updated_eq on_entry_video_updated_eq on_event_control_eq
  on_presence_update_eq on_performance_announced_eq



lemmas spec_defs = spec_dispatch_def logged_fields_def spec_destinations_def spec_out_event_def
  spec_out_payload_def

lemma forwarding_events_cases:
  "ev \<in> set forwarding_events \<Longrightarrow>
     ev = ''performance:reorder'' \<or> ev = ''performance:status''
   \<or> ev = ''performance:music_cue'' \<or> ev = ''entry:music_updated''
   \<or> ev = ''entry:video_updated'' \<or> ev = ''event:control''
   \<or> ev = ''presence:update'' \<or> ev = ''performance:announced''"
  by (simp add: forwarding_events_def)

lemma handler_forwards:
  assumes "ev \<in> set forwarding_events"
  shows "handler ev d sock = Some (spec_dispatch ev d sock)"
  using forwarding_events_cases [OF assms]
  by (elim disjE) (simp_all add: handler_def sent_def forward_eqs spec_defs)

lemma handler_test_notification:
  "handler ''test:notification'' d sock = Some (spec_dispatch ''test:notification'' d sock)"
proof (cases "get_prop d ''eventId''")
  case (Inl f)
  then show ?thesis
    by (simp add: handler_def sent_def on_test_notification_def spec_defs)
next
  case (Inr eid)
  then show ?thesis
    by (simp add: handler_def sent_def on_test_notification_def spec_defs template_def)
qed

lemma handler_dispatch:
  assumes "ev \<in> set dispatch_events"
  shows "handler ev d sock = Some (spec_dispatch ev d sock)"
  using assms handler_forwards [of ev d sock] handler_test_notification [of d sock]
  by (auto simp add: dispatch_events_def)

lemma rbind_eq_Inr: "rbind m f = Inr y \<longleftrightarrow> (\<exists>x. m = Inr x \<and> f x = Inr y)"
  by (cases m) simp_all

lemma spec_dispatch_Inr:
  assumes "spec_dispatch ev d sock = Inr (sock', out)"
  shows "\<exists>eid e. get_prop d ''eventId'' = Inr eid \<and> to_string eid = Inr e \<and> sock' = sock
    \<and> out = map (\<lambda>p. Emit (p @ e) (spec_out_event ev) (spec_out_payload ev d eid))
              (spec_destinations ev)"
  using assms by (auto simp add: spec_dispatch_def rbind_eq_Inr)

lemma receive_Inr:
  "receive srv c ev arg = Some (Inr (srv', out)) \<longleftrightarrow>
     (\<exists>sock'. handler ev arg (srv c) = Some (Inr (sock', out)) \<and> srv' = srv(c := sock'))"
  by (auto simp add: receive_def rbind_eq_Inr split: option.splits)

lemma receive_dispatch_Inr:
  assumes "ev \<in> set dispatch_events" and "receive srv c ev d = Some (Inr (srv', out))"
  shows "\<exists>eid e. get_prop d ''eventId'' = Inr eid \<and> to_string eid = Inr e \<and> srv' = srv
    \<and> out = map (\<lambda>p. Emit (p @ e) (spec_out_event ev) (spec_out_payload ev d eid))
              (spec_destinations ev)"
proof -
  from assms(2) obtain sock' where h: "handler ev d (srv c) = Some (Inr (sock', out))"
    and s: "srv' = srv(c := sock')"
    by (auto simp add: receive_Inr)
  from h assms(1) have "spec_dispatch ev d (srv c) = Inr (sock', out)"
    by (simp add: handler_dispatch)
  from spec_dispatch_Inr [OF this] s show ?thesis by auto
qed

section \<open>The claims\<close>

subsection \<open>The two scenarios of the specification\<close>

text \<open>
  Claim C3. An inbound \<^verbatim>\<open>presence:update\<close> with payload
  \<^verbatim>\<open>{eventId:"evt1", performanceId:"p1", present:true}\<close> is sent on, unchanged and
  under the same event name, to the rooms \<^verbatim>\<open>event:evt1\<close>, \<^verbatim>\<open>backstage:evt1\<close>,
  \<^verbatim>\<open>announcer:evt1\<close>, \<^verbatim>\<open>registration:evt1\<close> and \<^verbatim>\<open>media:evt1\<close>, one
  message each and nothing else; \<^verbatim>\<open>judges:evt1\<close> and \<^verbatim>\<open>sound:evt1\<close> are not
  among them. No socket changes.
\<close>

theorem presence_update_scenario:
  "receive srv c ''presence:update''
       (JObj [(''eventId'', JStr ''evt1''), (''performanceId'', JStr ''p1''),
              (''present'', JBool True)])
     = Some (Inr (srv,
         map (\<lambda>r. Emit r ''presence:update''
                (JObj [(''eventId'', JStr ''evt1''), (''performanceId'', JStr ''p1''),
                       (''present'', JBool True)]))
           [''event:evt1'', ''backstage:evt1'', ''announcer:evt1'', ''registration:evt1'',
            ''media:evt1'']))
   \<and> ''judges:evt1'' \<notin> set [''event:evt1'', ''backstage:evt1'', ''announcer:evt1'',
          ''registration:evt1'', ''media:evt1'']
   \<and> ''sound:evt1'' \<notin> set [''event:evt1'', ''backstage:evt1'', ''announcer:evt1'',
          ''registration:evt1'', ''media:evt1'']"
  by (simp add: receive_def handler_def sent_def on_presence_update_eq interp_def)

text \<open>
  Claim C4. An inbound \<^verbatim>\<open>test:notification\<close> with payload
  \<^verbatim>\<open>{eventId:"evt1"}\<close> produces exactly one outbound message: event name
  \<^verbatim>\<open>notification\<close>, the synthesized payload, room \<^verbatim>\<open>event:evt1\<close>. A connection
  gets it if and only if it is in that room; the inbound payload is not forwarded.
\<close>

theorem test_notification_scenario:
  "receive srv c ''test:notification'' (JObj [(''eventId'', JStr ''evt1'')])
     = Some (Inr (srv,
         [Emit ''event:evt1'' ''notification''
            (JObj [(''type'', JStr ''info''),
                   (''message'', JStr ''Test notification from backstage!''),
                   (''eventId'', JStr ''evt1'')])]))
   \<and> delivered srv
         [Emit ''event:evt1'' ''notification''
            (JObj [(''type'', JStr ''info''),
                   (''message'', JStr ''Test notification from backstage!''),
                   (''eventId'', JStr ''evt1'')])] c'
     = (if ''event:evt1'' \<in> rooms (srv c') then
          [(''notification'',
            JObj [(''type'', JStr ''info''),
                  (''message'', JStr ''Test notification from backstage!''),
                  (''eventId'', JStr ''evt1'')])]
        else [])"
  by (simp add: receive_def handler_def sent_def on_test_notification_def template_def
      delivered_def)

subsection \<open>Names without a listener\<close>


lemma registered_events_listener:
  assumes "ev \<in> set registered_events"
  shows "\<exists>r. handler ev arg sock = Some r"
proof -
  from assms have "ev = ''join:event'' \<or> ev = ''join:judge'' \<or> ev = ''join:sound''
   \<or> ev = ''join:backstage'' \<or> ev = ''join:announcer'' \<or> ev = ''join:registration''
   \<or> ev = ''join:media'' \<or> ev = ''performance:reorder'' \<or> ev = ''performance:status''
   \<or> ev = ''performance:music_cue'' \<or> ev = ''entry:music_updated''
   \<or> ev = ''entry:video_updated'' \<or> ev = ''event:control'' \<or> ev = ''presence:update''
   \<or> ev = ''performance:announced'' \<or> ev = ''test:notification''
   \<or> ev = ''disconnect'' \<or> ev = ''error''"
    by (simp add: registered_events_def join_events_def dispatch_events_def
        forwarding_events_def)
  then show ?thesis
    by (elim disjE) (simp_all add: handler_def)
qed



subsection \<open>Joining\<close>

lemmas join_defs = on_join_event_def on_join_judge_def on_join_sound_def on_join_backstage_def
  on_join_announcer_def on_join_registration_def on_join_media_def

lemma join_events_cases:
  "ev \<in> set join_events \<Longrightarrow>
     ev = ''join:event'' \<or> ev = ''join:judge'' \<or> ev = ''join:sound''
   \<or> ev = ''join:backstage'' \<or> ev = ''join:announcer'' \<or> ev = ''join:registration''
   \<or> ev = ''join:media''"
  by (simp add: join_events_def)

lemma handler_join_again:
  assumes "ev \<in> set join_events" and "handler ev arg sock = Some (Inr (sock1, out1))"
  shows "handler ev arg sock1 = Some (Inr (sock1, [])) \<and> out1 = []"
  using join_events_cases [OF assms(1)] assms(2)
  apply (elim disjE)
  apply (auto simp add: handler_def joined_def join_defs rbind_eq_Inr Let_def socket_join_def
      template_def)
  done

text \<open>
  Claim C5. Whatever the connection, the join name and the argument, handling the same join
  request twice in a row has the outcome of handling it once. When the request has been
  handled, handling it again sends nothing and gives back the very same server state, so
  the connection's rooms and its recorded attributes are what they were after the first
  request; a request that throws throws the first time.
\<close>

theorem join_idempotent:
  assumes "ev \<in> set join_events"
  shows "and_then (receive srv c ev arg) (\<lambda>(srv1, out1). receive srv1 c ev arg)
       = receive srv c ev arg
     \<and> (\<exists>r. receive srv c ev arg = Some r)
     \<and> (\<forall>srv1 out1. receive srv c ev arg = Some (Inr (srv1, out1)) \<longrightarrow>
           out1 = [] \<and> receive srv1 c ev arg = Some (Inr (srv1, [])))"
proof -
  have again: "out1 = [] \<and> receive srv1 c ev arg = Some (Inr (srv1, []))"
    if r: "receive srv c ev arg = Some (Inr (srv1, out1))" for srv1 out1
  proof -
    from r obtain sock1 where h: "handler ev arg (srv c) = Some (Inr (sock1, out1))"
      and s: "srv1 = srv(c := sock1)"
      by (auto simp add: receive_Inr)
    from handler_join_again [OF assms h] s show ?thesis
      by (simp add: receive_def)
  qed
  from assms have "ev \<in> set registered_events"
    by (simp add: registered_events_def)
  from registered_events_listener [OF this, of arg "srv c"]
  obtain r where some: "receive srv c ev arg = Some r"
    by (auto simp add: receive_def)
  have "and_then (receive srv c ev arg) (\<lambda>(srv1, out1). receive srv1 c ev arg)
       = receive srv c ev arg"
  proof (cases r)
    case (Inl f)
    with some show ?thesis by (simp add: and_then_def)
  next
    case (Inr p)
    obtain srv1 out1 where p: "p = (srv1, out1)" by (cases p)
    with Inr some again [of srv1 out1] show ?thesis by (simp add: and_then_def)
  qed
  with again some show ?thesis by blast
qed

theorem join_idempotent_witness:
  "''join:judge'' \<in> set join_events
   \<and> receive no_sockets ''c1'' ''join:judge''
         (JObj [(''eventId'', JStr ''evt1''), (''judgeId'', JStr ''j7'')])
       = Some (Inr (no_sockets(''c1'' :=
                \<lparr>rooms = {''judges:evt1''},
                 data = \<lparr>role = None, judgeId = Some (JStr ''j7''),
                         eventId = Some (JStr ''evt1'')\<rparr>\<rparr>), []))
   \<and> receive (no_sockets(''c1'' :=
                \<lparr>rooms = {''judges:evt1''},
                 data = \<lparr>role = None, judgeId = Some (JStr ''j7''),
                         eventId = Some (JStr ''evt1'')\<rparr>\<rparr>)) ''c1'' ''join:judge''
         (JObj [(''eventId'', JStr ''evt1''), (''judgeId'', JStr ''j7'')])
       = Some (Inr (no_sockets(''c1'' :=
                \<lparr>rooms = {''judges:evt1''},
                 data = \<lparr>role = None, judgeId = Some (JStr ''j7''),
                         eventId = Some (JStr ''evt1'')\<rparr>\<rparr>), []))"
proof -
  have m: "''join:judge'' \<in> set join_events"
    by (simp add: join_events_def)
  have r: "receive no_sockets ''c1'' ''join:judge''
         (JObj [(''eventId'', JStr ''evt1''), (''judgeId'', JStr ''j7'')])
       = Some (Inr (no_sockets(''c1'' :=
                \<lparr>rooms = {''judges:evt1''},
                 data = \<lparr>role = None, judgeId = Some (JStr ''j7''),
                         eventId = Some (JStr ''evt1'')\<rparr>\<rparr>), []))"
    by (simp add: receive_def handler_def joined_def on_join_judge_def template_def
        socket_join_def no_sockets_def new_socket_def)
  from join_idempotent [OF m, of no_sockets "''c1''"
      "JObj [(''eventId'', JStr ''evt1''), (''judgeId'', JStr ''j7'')]"] r
  have "receive (no_sockets(''c1'' :=
                \<lparr>rooms = {''judges:evt1''},
                 data = \<lparr>role = None, judgeId = Some (JStr ''j7''),
                         eventId = Some (JStr ''evt1'')\<rparr>\<rparr>)) ''c1'' ''join:judge''
         (JObj [(''eventId'', JStr ''evt1''), (''judgeId'', JStr ''j7'')])
       = Some (Inr (no_sockets(''c1'' :=
                \<lparr>rooms = {''judges:evt1''},
                 data = \<lparr>role = None, judgeId = Some (JStr ''j7''),
                         eventId = Some (JStr ''evt1'')\<rparr>\<rparr>), []))"
    by blast
  with m r show ?thesis by blast
qed





subsection \<open>Fan-out and isolation\<close>

lemma spec_destinations_prefixes: "set (spec_destinations ev) \<subseteq> set room_prefixes"
  by (auto simp add: spec_destinations_def room_prefixes_def)

lemma room_name_inj:
  assumes "p \<in> set room_prefixes" and "p' \<in> set room_prefixes" and "p @ e = p' @ e'"
  shows "p = p' \<and> e = e'"
  using assms
  apply (simp add: room_prefixes_def)
  apply (elim disjE)
  apply simp_all
  done

lemma other_event_rooms:
  assumes "e' \<noteq> e" and "p \<in> set room_prefixes"
  shows "p @ e \<notin> event_rooms e'"
  using assms room_name_inj [of p _ e e'] by (auto simp add: event_rooms_def)

lemma delivered_member:
  assumes "m \<in> set out" and "em_room m \<in> rooms (srv c)"
  shows "(em_event m, em_payload m) \<in> set (delivered srv out c)"
  using assms by (auto simp add: delivered_def)

lemma delivered_none:
  assumes "\<And>m. m \<in> set out \<Longrightarrow> em_room m \<notin> rooms (srv c)"
  shows "delivered srv out c = []"
  using assms by (simp add: delivered_def filter_empty_conv)

lemma status_evt1_received:
  "receive srv c ''performance:status'' status_evt1 = Some (Inr (srv, status_sent ''evt1'' status_evt1))"
  by (simp add: receive_def handler_def sent_def on_performance_status_eq interp_def
      status_evt1_def status_sent_def)

lemma status_null_received:
  "receive srv c ''performance:status'' status_null = Some (Inr (srv, status_sent ''null'' status_null))"
  by (simp add: receive_def handler_def sent_def on_performance_status_eq interp_def
      status_null_def status_sent_def)

text \<open>
  Claim C1, as the code has it. Let a message under one of the nine rebroadcast names
  carry \<^verbatim>\<open>eventId\<close> \<open>eid\<close> and be handled without an exception. Then \<open>eid\<close> has
  a string form \<open>e\<close>, no socket changes, and the messages sent are exactly one per room
  of the table's row, each room named by its prefix followed by \<open>e\<close>; every connection
  that is in one of these rooms gets that message. No room named from an event id whose
  string form differs from \<open>e\<close> is a destination, and a connection whose rooms are all
  rooms of such an event id gets nothing.
\<close>

theorem fan_out_complete_and_isolated:
  assumes "ev \<in> set dispatch_events"
    and "get_prop d ''eventId'' = Inr eid"
    and "receive srv c ev d = Some (Inr (srv', out))"
  shows "\<exists>e. to_string eid = Inr e \<and> srv' = srv
     \<and> out = map (\<lambda>p. Emit (p @ e) (spec_out_event ev) (spec_out_payload ev d eid))
               (spec_destinations ev)
     \<and> (\<forall>m \<in> set out. \<forall>c'. em_room m \<in> rooms (srv c') \<longrightarrow>
           (em_event m, em_payload m) \<in> set (delivered srv out c'))
     \<and> (\<forall>eid' e'. to_string eid' = Inr e' \<and> e' \<noteq> e \<longrightarrow>
           (\<forall>p \<in> set room_prefixes. p @ e' \<notin> em_room ` set out)
         \<and> (\<forall>c'. rooms (srv c') \<subseteq> event_rooms e' \<longrightarrow> delivered srv out c' = []))"
proof -
  from receive_dispatch_Inr [OF assms(1) assms(3)] assms(2)
  obtain e where e: "to_string eid = Inr e" and s: "srv' = srv"
    and out: "out = map (\<lambda>p. Emit (p @ e) (spec_out_event ev) (spec_out_payload ev d eid))
               (spec_destinations ev)"
    by auto
  have rooms_out: "\<exists>p \<in> set room_prefixes. em_room m = p @ e" if "m \<in> set out" for m
    using that out spec_destinations_prefixes [of ev] by auto
  have deliver: "\<forall>m \<in> set out. \<forall>c'. em_room m \<in> rooms (srv c') \<longrightarrow>
           (em_event m, em_payload m) \<in> set (delivered srv out c')"
    by (simp add: delivered_member)
  have isolated: "(\<forall>p \<in> set room_prefixes. p @ e' \<notin> em_room ` set out)
         \<and> (\<forall>c'. rooms (srv c') \<subseteq> event_rooms e' \<longrightarrow> delivered srv out c' = [])"
    if "e' \<noteq> e" for e'
  proof (intro conjI ballI allI impI)
    fix p assume p: "p \<in> set room_prefixes"
    show "p @ e' \<notin> em_room ` set out"
    proof
      assume "p @ e' \<in> em_room ` set out"
      then obtain m where "m \<in> set out" and "em_room m = p @ e'" by auto
      with rooms_out [of m] obtain q where "q \<in> set room_prefixes" and "q @ e = p @ e'"
        by auto
      with p room_name_inj [of q p e e'] that show False by simp
    qed
  next
    fix c' assume sub: "rooms (srv c') \<subseteq> event_rooms e'"
    show "delivered srv out c' = []"
    proof (rule delivered_none)
      fix m assume "m \<in> set out"
      with rooms_out [of m] obtain q where "q \<in> set room_prefixes" and "em_room m = q @ e"
        by auto
      with other_event_rooms [OF that] sub show "em_room m \<notin> rooms (srv c')" by auto
    qed
  qed
  from e s out deliver isolated show ?thesis by blast
qed

text \<open>
  The claim speaks of any event id distinct from \<open>eid\<close>. Room names are built from the
  string form, and distinct values can share it: \<^verbatim>\<open>null\<close> and the string
  \<^verbatim>\<open>"null"\<close> do (so do \<^verbatim>\<open>undefined\<close>, the value read from a payload without
  \<^verbatim>\<open>eventId\<close>, and \<^verbatim>\<open>"undefined"\<close>, or the number 1 and \<^verbatim>\<open>"1"\<close>). A
  connection that joined nothing but the event room of \<^verbatim>\<open>"null"\<close> receives the
  status update sent with \<^verbatim>\<open>eventId: null\<close>.
\<close>

theorem fan_out_crosses_event_ids:
  "JNull \<noteq> JStr ''null''
   \<and> receive no_sockets ''c2'' ''join:event'' (JStr ''null'')
       = Some (Inr (only_member ''c2'' ''event:null'', []))
   \<and> rooms (only_member ''c2'' ''event:null'' ''c2'') = {''event:null''}
   \<and> get_prop status_null ''eventId'' = Inr JNull
   \<and> receive (only_member ''c2'' ''event:null'') ''c1'' ''performance:status'' status_null
       = Some (Inr (only_member ''c2'' ''event:null'', status_sent ''null'' status_null))
   \<and> delivered (only_member ''c2'' ''event:null'') (status_sent ''null'' status_null) ''c2''
       = [(''performance:status'', status_null)]"
proof -
  have "receive no_sockets ''c2'' ''join:event'' (JStr ''null'')
       = Some (Inr (only_member ''c2'' ''event:null'', []))"
    by (simp add: receive_def handler_def joined_def on_join_event_def template_def
        only_member_def no_sockets_def)
  moreover have "rooms (only_member ''c2'' ''event:null'' ''c2'') = {''event:null''}"
    by (simp add: only_member_def socket_join_def new_socket_def)
  moreover have "get_prop status_null ''eventId'' = Inr JNull"
    by (simp add: status_null_def)
  moreover have "delivered (only_member ''c2'' ''event:null'')
      (status_sent ''null'' status_null) ''c2'' = [(''performance:status'', status_null)]"
    by (simp add: delivered_def only_member_def socket_join_def new_socket_def status_sent_def)
  ultimately show ?thesis by (simp add: status_null_received)
qed

theorem fan_out_complete_and_isolated_witness:
  "''performance:status'' \<in> set dispatch_events
   \<and> get_prop status_evt1 ''eventId'' = Inr (JStr ''evt1'')
   \<and> receive two_judges ''c1'' ''performance:status'' status_evt1
       = Some (Inr (two_judges, status_sent ''evt1'' status_evt1))
   \<and> (''performance:status'', status_evt1)
       \<in> set (delivered two_judges (status_sent ''evt1'' status_evt1) ''c2'')
   \<and> ''judges:evt2'' \<notin> em_room ` set (status_sent ''evt1'' status_evt1)
   \<and> delivered two_judges (status_sent ''evt1'' status_evt1) ''c3'' = []"
proof -
  have ev: "''performance:status'' \<in> set dispatch_events"
    by (simp add: dispatch_events_def forwarding_events_def)
  have g: "get_prop status_evt1 ''eventId'' = Inr (JStr ''evt1'')"
    by (simp add: status_evt1_def)
  note r = status_evt1_received [of two_judges "''c1''"]
  from fan_out_complete_and_isolated [OF ev g r]
  obtain e where e: "to_string (JStr ''evt1'') = Inr e"
    and deliver: "\<forall>m \<in> set (status_sent ''evt1'' status_evt1). \<forall>c'.
      em_room m \<in> rooms (two_judges c') \<longrightarrow>
      (em_event m, em_payload m) \<in> set (delivered two_judges (status_sent ''evt1'' status_evt1) c')"
    and isolated': "\<forall>eid' e'. to_string eid' = Inr e' \<and> e' \<noteq> e \<longrightarrow>
           (\<forall>p \<in> set room_prefixes. p @ e' \<notin> em_room ` set (status_sent ''evt1'' status_evt1))
         \<and> (\<forall>c'. rooms (two_judges c') \<subseteq> event_rooms e' \<longrightarrow>
               delivered two_judges (status_sent ''evt1'' status_evt1) c' = [])"
    by blast
  from e have ee: "e = ''evt1''" by simp
  note isolated = isolated' [unfolded ee]
  have m: "Emit ''judges:evt1'' ''performance:status'' status_evt1
      \<in> set (status_sent ''evt1'' status_evt1)"
    by (simp add: status_sent_def)
  have "''judges:evt1'' \<in> rooms (two_judges ''c2'')"
    by (simp add: two_judges_def socket_join_def new_socket_def)
  with deliver m have c2: "(''performance:status'', status_evt1)
       \<in> set (delivered two_judges (status_sent ''evt1'' status_evt1) ''c2'')"
    by fastforce
  have other: "to_string (JStr ''evt2'') = Inr ''evt2'' \<and> ''evt2'' \<noteq> ''evt1''"
    by simp
  have p: "''judges:'' \<in> set room_prefixes"
    by (simp add: room_prefixes_def)
  have sub: "rooms (two_judges ''c3'') \<subseteq> event_rooms ''evt2''"
    by (simp add: two_judges_def socket_join_def new_socket_def event_rooms_def
        room_prefixes_def)
  from isolated other p sub
  have "''judges:'' @ ''evt2'' \<notin> em_room ` set (status_sent ''evt1'' status_evt1)"
    and "delivered two_judges (status_sent ''evt1'' status_evt1) ''c3'' = []"
    by blast+
  with ev g r c2 show ?thesis by simp
qed

subsection \<open>When a rebroadcast handler throws\<close>

lemma not_fault: "(m :: fault + 'a) \<noteq> Inl TypeError \<longleftrightarrow> (\<exists>x. m = Inr x)"
proof (cases m)
  case (Inl f)
  then show ?thesis by (cases f) simp
next
  case (Inr x)
  then show ?thesis by simp
qed

lemma rbind_always_fault: "rbind m (\<lambda>x. Inl TypeError) = Inl TypeError"
proof (cases m)
  case (Inl f)
  then show ?thesis by (cases f) simp
next
  case (Inr x)
  then show ?thesis by simp
qed

lemma console_log_interp:
  "console_log (map (interp d) ks) =
     (if \<exists>k \<in> set ks. interp d k = Inl TypeError then Inl TypeError else Inr ())"
proof (induction ks)
  case Nil
  then show ?case by simp
next
  case (Cons k ks)
  show ?case
  proof (cases "interp d k = Inl TypeError")
    case True
    then show ?thesis by simp
  next
    case False
    then obtain s where "interp d k = Inr s" by (auto simp add: not_fault)
    with Cons show ?thesis by simp
  qed
qed

lemma spec_dispatch_exact:
  assumes "get_prop d ''eventId'' = Inr eid" and "to_string eid = Inr e"
  shows "spec_dispatch ev d sock =
     (if \<exists>k \<in> set (logged_fields ev). interp d k = Inl TypeError then Inl TypeError
      else Inr (sock, map (\<lambda>p. Emit (p @ e) (spec_out_event ev) (spec_out_payload ev d eid))
                        (spec_destinations ev)))"
  using assms by (simp add: spec_dispatch_def console_log_interp)

lemma receive_dispatch_exact:
  assumes "ev \<in> set dispatch_events"
    and "get_prop d ''eventId'' = Inr eid" and "to_string eid = Inr e"
  shows "receive srv c ev d =
     Some (if \<exists>k \<in> set (logged_fields ev). interp d k = Inl TypeError then Inl TypeError
      else Inr (srv, map (\<lambda>p. Emit (p @ e) (spec_out_event ev) (spec_out_payload ev d eid))
                       (spec_destinations ev)))"
  using assms(1) by (simp add: receive_def handler_dispatch spec_dispatch_exact [OF assms(2,3)])

lemma receive_dispatch_fault:
  assumes "ev \<in> set dispatch_events" and "interp d ''eventId'' = Inl TypeError"
  shows "receive srv c ev d = Some (Inl TypeError)"
proof (cases "get_prop d ''eventId''")
  case (Inl f)
  with assms(1) show ?thesis
    by (cases f) (simp add: receive_def handler_dispatch spec_dispatch_def rbind_always_fault)
next
  case (Inr eid)
  with assms have "to_string eid = Inl TypeError" by (simp add: interp_def)
  with assms(1) Inr show ?thesis
    by (simp add: receive_def handler_dispatch spec_dispatch_def rbind_always_fault)
qed

text \<open>
  Claim C7, as the code has it. Under each of the nine rebroadcast names the handler throws
  a \<^verbatim>\<open>TypeError\<close> exactly when the payload is \<^verbatim>\<open>undefined\<close> or \<^verbatim>\<open>null\<close>
  (reading a property of it throws), or when \<^verbatim>\<open>eventId\<close> or a field of the log line
  has no string form. In every other case, whatever the payload is, it does not fail: a
  field the payload lacks is read as \<^verbatim>\<open>undefined\<close>, the rooms are named from the
  string form of whatever \<^verbatim>\<open>eventId\<close> was read (\<^verbatim>\<open>undefined\<close> when the payload
  has none), and the payload goes out as it came (the synthesized object for
  \<^verbatim>\<open>test:notification\<close>), with no socket changed.
\<close>

theorem dispatch_faults_exactly:
  assumes "ev \<in> set dispatch_events"
  shows "((d = JUndefined \<or> d = JNull
           \<or> (\<exists>k \<in> set (''eventId'' # logged_fields ev). interp d k = Inl TypeError))
          \<longrightarrow> receive srv c ev d = Some (Inl TypeError))
     \<and> (d \<noteq> JUndefined \<and> d \<noteq> JNull
          \<and> (\<forall>k \<in> set (''eventId'' # logged_fields ev). interp d k \<noteq> Inl TypeError)
          \<longrightarrow> (\<exists>eid e. get_prop d ''eventId'' = Inr eid \<and> to_string eid = Inr e
                \<and> ((\<forall>kvs. d = JObj kvs \<longrightarrow> map_of kvs ''eventId'' = None)
                     \<longrightarrow> eid = JUndefined \<and> e = ''undefined'')
                \<and> receive srv c ev d
                    = Some (Inr (srv, map (\<lambda>p. Emit (p @ e) (spec_out_event ev)
                                          (spec_out_payload ev d eid))
                                 (spec_destinations ev)))))"
proof (intro conjI impI)
  assume bad: "d = JUndefined \<or> d = JNull
     \<or> (\<exists>k \<in> set (''eventId'' # logged_fields ev). interp d k = Inl TypeError)"
  show "receive srv c ev d = Some (Inl TypeError)"
  proof (cases "interp d ''eventId'' = Inl TypeError")
    case True
    then show ?thesis by (rule receive_dispatch_fault [OF assms])
  next
    case False
    then obtain e where e: "interp d ''eventId'' = Inr e" by (auto simp add: not_fault)
    then obtain eid where g: "get_prop d ''eventId'' = Inr eid" and t: "to_string eid = Inr e"
      by (auto simp add: interp_def rbind_eq_Inr)
    from g have "d \<noteq> JUndefined" and "d \<noteq> JNull" by auto
    with bad False have "\<exists>k \<in> set (logged_fields ev). interp d k = Inl TypeError" by auto
    then show ?thesis by (simp add: receive_dispatch_exact [OF assms g t])
  qed
next
  assume ok: "d \<noteq> JUndefined \<and> d \<noteq> JNull
     \<and> (\<forall>k \<in> set (''eventId'' # logged_fields ev). interp d k \<noteq> Inl TypeError)"
  then obtain e where e: "interp d ''eventId'' = Inr e" by (auto simp add: not_fault)
  then obtain eid where g: "get_prop d ''eventId'' = Inr eid" and t: "to_string eid = Inr e"
    by (auto simp add: interp_def rbind_eq_Inr)
  have missing: "eid = JUndefined \<and> e = ''undefined''"
    if "\<forall>kvs. d = JObj kvs \<longrightarrow> map_of kvs ''eventId'' = None"
    using that g t by (cases d) auto
  from ok have "\<not> (\<exists>k \<in> set (logged_fields ev). interp d k = Inl TypeError)" by simp
  then have "receive srv c ev d
      = Some (Inr (srv, map (\<lambda>p. Emit (p @ e) (spec_out_event ev) (spec_out_payload ev d eid))
                   (spec_destinations ev)))"
    by (simp add: receive_dispatch_exact [OF assms g t])
  with g t missing
  show "\<exists>eid e. get_prop d ''eventId'' = Inr eid \<and> to_string eid = Inr e
                \<and> ((\<forall>kvs. d = JObj kvs \<longrightarrow> map_of kvs ''eventId'' = None)
                     \<longrightarrow> eid = JUndefined \<and> e = ''undefined'')
                \<and> receive srv c ev d
                    = Some (Inr (srv, map (\<lambda>p. Emit (p @ e) (spec_out_event ev)
                                          (spec_out_payload ev d eid))
                                 (spec_destinations ev)))"
    by blast
qed

text \<open>
  The claim includes payloads that are not objects at all. Strings, numbers, booleans and
  arrays are handled, but \<^verbatim>\<open>null\<close> and a missing argument are not: the first
  property read throws.
\<close>

theorem dispatch_faults_on_null:
  "receive no_sockets ''c1'' ''performance:status'' JNull = Some (Inl TypeError)
   \<and> receive no_sockets ''c1'' ''performance:status'' JUndefined = Some (Inl TypeError)
   \<and> receive no_sockets ''c1'' ''test:notification'' JNull = Some (Inl TypeError)"
  by (simp add: receive_def handler_def sent_def on_performance_status_eq
      on_test_notification_def interp_def)

theorem dispatch_faults_exactly_witness:
  "''performance:status'' \<in> set dispatch_events
   \<and> receive no_sockets ''c1'' ''performance:status'' (JObj [])
       = Some (Inr (no_sockets, status_sent ''undefined'' (JObj [])))
   \<and> receive no_sockets ''c1'' ''performance:status'' (JStr ''hello'')
       = Some (Inr (no_sockets, status_sent ''undefined'' (JStr ''hello'')))
   \<and> interp status_unprintable ''performanceId'' = Inl TypeError
   \<and> receive no_sockets ''c1'' ''performance:status'' status_unprintable = Some (Inl TypeError)"
proof -
  have ev: "''performance:status'' \<in> set dispatch_events"
    by (simp add: dispatch_events_def forwarding_events_def)
  have fields: "''eventId'' # logged_fields ''performance:status''
      = [''eventId'', ''performanceId'', ''status'']"
    by (simp add: logged_fields_def)
  have out: "map (\<lambda>p. Emit (p @ ''undefined'') (spec_out_event ''performance:status'')
                 (spec_out_payload ''performance:status'' d eid))
               (spec_destinations ''performance:status'') = status_sent ''undefined'' d"
    for d eid
    by (simp add: spec_out_event_def spec_out_payload_def spec_destinations_def status_sent_def)
  note t = dispatch_faults_exactly [OF ev, of _ no_sockets "''c1''"]
  have "\<forall>k \<in> set (''eventId'' # logged_fields ''performance:status'').
      interp (JObj []) k \<noteq> Inl TypeError"
    by (simp add: fields interp_def)
  with t [of "JObj []"]
  have empty: "receive no_sockets ''c1'' ''performance:status'' (JObj [])
       = Some (Inr (no_sockets, status_sent ''undefined'' (JObj [])))"
    by (auto simp add: out)
  have "\<forall>k \<in> set (''eventId'' # logged_fields ''performance:status'').
      interp (JStr ''hello'') k \<noteq> Inl TypeError"
    by (simp add: fields interp_def)
  with t [of "JStr ''hello''"]
  have str: "receive no_sockets ''c1'' ''performance:status'' (JStr ''hello'')
       = Some (Inr (no_sockets, status_sent ''undefined'' (JStr ''hello'')))"
    by (auto simp add: out)
  have bad: "interp status_unprintable ''performanceId'' = Inl TypeError"
    by (simp add: interp_def status_unprintable_def)
  then have "\<exists>k \<in> set (''eventId'' # logged_fields ''performance:status'').
      interp status_unprintable k = Inl TypeError"
    by (simp add: fields)
  with t [of status_unprintable]
  have "receive no_sockets ''c1'' ''performance:status'' status_unprintable = Some (Inl TypeError)"
    by blast
  with ev empty str bad show ?thesis by simp
qed

subsection \<open>The announcer's room\<close>

text \<open>
  Claim C2, as the code has it. For a payload whose \<^verbatim>\<open>eventId\<close> prints as \<open>e\<close>,
  \<^verbatim>\<open>performance:announced\<close>, when it is handled without an exception, sends the
  payload on, under the same name, to the rooms \<^verbatim>\<open>event:\<close>\<open>e\<close>,
  \<^verbatim>\<open>backstage:\<close>\<open>e\<close>, \<^verbatim>\<open>judges:\<close>\<open>e\<close>, \<^verbatim>\<open>sound:\<close>\<open>e\<close>,
  \<^verbatim>\<open>registration:\<close>\<open>e\<close> and \<^verbatim>\<open>media:\<close>\<open>e\<close>, and
  \<^verbatim>\<open>announcer:\<close>\<open>e\<close> is not among them; each of the seven other forwarding events,
  when handled, does send to \<^verbatim>\<open>announcer:\<close>\<open>e\<close>. A handler throws, and sends
  nothing, exactly when a field of its log line has no string form.
\<close>

theorem announced_skips_announcer_room:
  assumes "get_prop d ''eventId'' = Inr eid" and "to_string eid = Inr e"
  shows "receive srv c ''performance:announced'' d
       = Some (if interp d ''performanceId'' = Inl TypeError then Inl TypeError
          else Inr (srv, map (\<lambda>r. Emit r ''performance:announced'' d)
                 [''event:'' @ e, ''backstage:'' @ e, ''judges:'' @ e, ''sound:'' @ e,
                  ''registration:'' @ e, ''media:'' @ e]))
     \<and> ''announcer:'' @ e \<notin> set [''event:'' @ e, ''backstage:'' @ e, ''judges:'' @ e,
           ''sound:'' @ e, ''registration:'' @ e, ''media:'' @ e]
     \<and> (\<forall>ev \<in> set forwarding_events. ev \<noteq> ''performance:announced'' \<longrightarrow>
          (\<exists>out. Emit (''announcer:'' @ e) ev d \<in> set out
             \<and> receive srv c ev d
                 = Some (if \<exists>k \<in> set (logged_fields ev). interp d k = Inl TypeError
                    then Inl TypeError else Inr (srv, out))))"
proof (intro conjI ballI impI)
  have "''performance:announced'' \<in> set dispatch_events"
    by (simp add: dispatch_events_def forwarding_events_def)
  from receive_dispatch_exact [OF this assms]
  show "receive srv c ''performance:announced'' d
       = Some (if interp d ''performanceId'' = Inl TypeError then Inl TypeError
          else Inr (srv, map (\<lambda>r. Emit r ''performance:announced'' d)
                 [''event:'' @ e, ''backstage:'' @ e, ''judges:'' @ e, ''sound:'' @ e,
                  ''registration:'' @ e, ''media:'' @ e]))"
    by (simp add: logged_fields_def spec_destinations_def spec_out_event_def
        spec_out_payload_def)
next
  show "''announcer:'' @ e \<notin> set [''event:'' @ e, ''backstage:'' @ e, ''judges:'' @ e,
           ''sound:'' @ e, ''registration:'' @ e, ''media:'' @ e]"
    by simp
next
  fix ev
  assume ev: "ev \<in> set forwarding_events" and other: "ev \<noteq> ''performance:announced''"
  let ?out = "map (\<lambda>p. Emit (p @ e) (spec_out_event ev) (spec_out_payload ev d eid))
                (spec_destinations ev)"
  from ev have "ev \<in> set dispatch_events" by (simp add: dispatch_events_def)
  from receive_dispatch_exact [OF this assms]
  have r: "receive srv c ev d
      = Some (if \<exists>k \<in> set (logged_fields ev). interp d k = Inl TypeError
         then Inl TypeError else Inr (srv, ?out))" .
  from forwarding_events_cases [OF ev] other
  have "Emit (''announcer:'' @ e) ev d \<in> set ?out"
    by (elim disjE)
      (simp_all add: spec_destinations_def spec_out_event_def spec_out_payload_def)
  with r show "\<exists>out. Emit (''announcer:'' @ e) ev d \<in> set out
             \<and> receive srv c ev d
                 = Some (if \<exists>k \<in> set (logged_fields ev). interp d k = Inl TypeError
                    then Inl TypeError else Inr (srv, out))"
    by blast
qed

text \<open>
  The claim has the payload rebroadcast whenever it carries an \<^verbatim>\<open>eventId\<close>. The log
  line of line 219 comes first, and a \<^verbatim>\<open>performanceId\<close> without a string form stops
  the handler there: nothing is sent.
\<close>

theorem announced_throws:
  "get_prop status_unprintable ''eventId'' = Inr (JStr ''evt1'')
   \<and> to_string (JStr ''evt1'') = Inr ''evt1''
   \<and> receive no_sockets ''c1'' ''performance:announced'' status_unprintable
       = Some (Inl TypeError)"
  by (simp add: receive_def handler_def sent_def on_performance_announced_eq interp_def
      status_unprintable_def)

theorem announced_skips_announcer_room_witness:
  "get_prop status_evt1 ''eventId'' = Inr (JStr ''evt1'')
   \<and> to_string (JStr ''evt1'') = Inr ''evt1''
   \<and> receive no_sockets ''c1'' ''performance:announced'' status_evt1
       = Some (Inr (no_sockets, map (\<lambda>r. Emit r ''performance:announced'' status_evt1)
                 [''event:evt1'', ''backstage:evt1'', ''judges:evt1'', ''sound:evt1'',
                  ''registration:evt1'', ''media:evt1'']))
   \<and> ''presence:update'' \<in> set forwarding_events
   \<and> receive no_sockets ''c1'' ''presence:update'' status_evt1
       = Some (Inr (no_sockets, map (\<lambda>r. Emit r ''presence:update'' status_evt1)
                 [''event:evt1'', ''backstage:evt1'', ''announcer:evt1'',
                  ''registration:evt1'', ''media:evt1'']))
   \<and> Emit ''announcer:evt1'' ''presence:update'' status_evt1
       \<in> set (map (\<lambda>r. Emit r ''presence:update'' status_evt1)
                 [''event:evt1'', ''backstage:evt1'', ''announcer:evt1'',
                  ''registration:evt1'', ''media:evt1''])"
proof -
  have g: "get_prop status_evt1 ''eventId'' = Inr (JStr ''evt1'')"
    by (simp add: status_evt1_def)
  have t: "to_string (JStr ''evt1'') = Inr ''evt1''"
    by simp
  have p: "interp status_evt1 ''performanceId'' \<noteq> Inl TypeError"
    by (simp add: interp_def status_evt1_def)
  have ev: "''presence:update'' \<in> set forwarding_events"
    by (simp add: forwarding_events_def)
  have l: "\<not> (\<exists>k \<in> set (logged_fields ''presence:update'').
      interp status_evt1 k = Inl TypeError)"
    by (simp add: logged_fields_def interp_def status_evt1_def)
  have r: "receive no_sockets ''c1'' ''presence:update'' status_evt1
       = Some (Inr (no_sockets, map (\<lambda>r. Emit r ''presence:update'' status_evt1)
                 [''event:evt1'', ''backstage:evt1'', ''announcer:evt1'',
                  ''registration:evt1'', ''media:evt1'']))"
    by (simp add: receive_def handler_def sent_def on_presence_update_eq interp_def
        status_evt1_def)
  note a = announced_skips_announcer_room [OF g t, of no_sockets "''c1''"]
  from a p have first: "receive no_sockets ''c1'' ''performance:announced'' status_evt1
       = Some (Inr (no_sockets, map (\<lambda>r. Emit r ''performance:announced'' status_evt1)
                 [''event:evt1'', ''backstage:evt1'', ''judges:evt1'', ''sound:evt1'',
                  ''registration:evt1'', ''media:evt1'']))"
    by simp
  from a ev obtain out
    where m: "Emit (''announcer:'' @ ''evt1'') ''presence:update'' status_evt1 \<in> set out"
      and "receive no_sockets ''c1'' ''presence:update'' status_evt1
        = Some (if \<exists>k \<in> set (logged_fields ''presence:update'').
               interp status_evt1 k = Inl TypeError
           then Inl TypeError else Inr (no_sockets, out))"
    by fastforce
  with l r have "out = map (\<lambda>r. Emit r ''presence:update'' status_evt1)
                 [''event:evt1'', ''backstage:evt1'', ''announcer:evt1'',
                  ''registration:evt1'', ''media:evt1'']"
    by simp
  with m have "Emit ''announcer:evt1'' ''presence:update'' status_evt1
       \<in> set (map (\<lambda>r. Emit r ''presence:update'' status_evt1)
                 [''event:evt1'', ''backstage:evt1'', ''announcer:evt1'',
                  ''registration:evt1'', ''media:evt1''])"
    by simp
  with g t first ev r show ?thesis by blast
qed

subsection \<open>What routing depends on\<close>

text \<open>
  Claim C8, as the code has it. Take two payloads received under the same rebroadcast
  name, by any connections in any server states, that agree on \<^verbatim>\<open>eventId\<close>. If both are
  handled without an exception, the destination rooms are the same, in the same order,
  whatever the other fields are.
\<close>

theorem routing_reads_event_id_only:
  assumes "ev \<in> set dispatch_events"
    and "get_prop d1 ''eventId'' = get_prop d2 ''eventId''"
    and "receive srv1 c1 ev d1 = Some (Inr (srv1', out1))"
    and "receive srv2 c2 ev d2 = Some (Inr (srv2', out2))"
  shows "map em_room out1 = map em_room out2"
proof -
  from receive_dispatch_Inr [OF assms(1,3)] obtain eid1 e1
    where 1: "get_prop d1 ''eventId'' = Inr eid1" "to_string eid1 = Inr e1"
      "out1 = map (\<lambda>p. Emit (p @ e1) (spec_out_event ev) (spec_out_payload ev d1 eid1))
               (spec_destinations ev)"
    by blast
  from receive_dispatch_Inr [OF assms(1,4)] obtain eid2 e2
    where 2: "get_prop d2 ''eventId'' = Inr eid2" "to_string eid2 = Inr e2"
      "out2 = map (\<lambda>p. Emit (p @ e2) (spec_out_event ev) (spec_out_payload ev d2 eid2))
               (spec_destinations ev)"
    by blast
  from 1(1) 2(1) assms(2) have "eid1 = eid2" by simp
  with 1(2) 2(2) have "e1 = e2" by simp
  with 1(3) 2(3) show ?thesis by simp
qed

text \<open>
  The other fields are not used for logging only in effect: the log line converts them to
  strings before anything is sent, and a \<^verbatim>\<open>performanceId\<close> without a string form
  stops the handler there. Two payloads with the same \<^verbatim>\<open>eventId\<close>: one reaches seven
  rooms, the other none.
\<close>

theorem logged_field_stops_routing:
  "get_prop status_evt1 ''eventId'' = get_prop status_unprintable ''eventId''
   \<and> receive no_sockets ''c1'' ''performance:status'' status_evt1
       = Some (Inr (no_sockets, status_sent ''evt1'' status_evt1))
   \<and> receive no_sockets ''c1'' ''performance:status'' status_unprintable = Some (Inl TypeError)"
  by (simp add: receive_def handler_def sent_def on_performance_status_eq interp_def
      status_evt1_def status_unprintable_def status_sent_def)

theorem routing_reads_event_id_only_witness:
  "''performance:status'' \<in> set dispatch_events
   \<and> get_prop status_evt1 ''eventId''
       = get_prop (JObj [(''status'', JStr ''live''), (''eventId'', JStr ''evt1''),
                         (''note'', JArr [JNum 3, JNull])]) ''eventId''
   \<and> receive no_sockets ''c1'' ''performance:status'' status_evt1
       = Some (Inr (no_sockets, status_sent ''evt1'' status_evt1))
   \<and> receive two_judges ''c2'' ''performance:status''
         (JObj [(''status'', JStr ''live''), (''eventId'', JStr ''evt1''),
                (''note'', JArr [JNum 3, JNull])])
       = Some (Inr (two_judges, status_sent ''evt1''
           (JObj [(''status'', JStr ''live''), (''eventId'', JStr ''evt1''),
                  (''note'', JArr [JNum 3, JNull])])))
   \<and> map em_room (status_sent ''evt1'' status_evt1)
       = map em_room (status_sent ''evt1''
           (JObj [(''status'', JStr ''live''), (''eventId'', JStr ''evt1''),
                  (''note'', JArr [JNum 3, JNull])]))"
proof -
  let ?d2 = "JObj [(''status'', JStr ''live''), (''eventId'', JStr ''evt1''),
                   (''note'', JArr [JNum 3, JNull])]"
  have ev: "''performance:status'' \<in> set dispatch_events"
    by (simp add: dispatch_events_def forwarding_events_def)
  have g: "get_prop status_evt1 ''eventId'' = get_prop ?d2 ''eventId''"
    by (simp add: status_evt1_def)
  note r1 = status_evt1_received [of no_sockets "''c1''"]
  have r2: "receive two_judges ''c2'' ''performance:status'' ?d2
      = Some (Inr (two_judges, status_sent ''evt1'' ?d2))"
    by (simp add: receive_def handler_def sent_def on_performance_status_eq interp_def
        status_sent_def)
  from ev g r1 r2 routing_reads_event_id_only [OF ev g r1 r2] show ?thesis by blast
qed

subsection \<open>The sender\<close>

lemma left_out_complement:
  assumes "ev \<in> set dispatch_events"
  shows "set (left_out ev) = set room_prefixes - set (spec_destinations ev)"
proof -
  from assms have "ev = ''performance:reorder'' \<or> ev = ''performance:status''
   \<or> ev = ''performance:music_cue'' \<or> ev = ''entry:music_updated''
   \<or> ev = ''entry:video_updated'' \<or> ev = ''event:control''
   \<or> ev = ''presence:update'' \<or> ev = ''performance:announced''
   \<or> ev = ''test:notification''"
    by (simp add: dispatch_events_def forwarding_events_def)
  then show ?thesis
    by (elim disjE)
      (auto simp add: left_out_def spec_destinations_def room_prefixes_def)
qed

lemma reorder_evt1_received:
  "receive srv c ''performance:reorder'' status_evt1
     = Some (Inr (srv, reorder_sent ''evt1'' status_evt1))"
  by (simp add: receive_def handler_def sent_def on_performance_reorder_eq interp_def
      status_evt1_def reorder_sent_def)

text \<open>
  Claim C10, as the code has it. Let a message under a rebroadcast name be handled without
  an exception, its \<^verbatim>\<open>eventId\<close> printing as \<open>e\<close>. No handler looks at who sent it:
  any connection sending the same payload makes the server send the same messages. Rooms
  are left out by name only, and not the announcer's alone: \<^verbatim>\<open>backstage:\<close> under
  \<^verbatim>\<open>performance:reorder\<close> and \<^verbatim>\<open>event:control\<close>, \<^verbatim>\<open>judges:\<close> and
  \<^verbatim>\<open>sound:\<close> under \<^verbatim>\<open>presence:update\<close>, \<^verbatim>\<open>announcer:\<close> under
  \<^verbatim>\<open>performance:announced\<close>, every role room under \<^verbatim>\<open>test:notification\<close>.
  Every other room of \<open>e\<close> is sent to, and a sender that is in one of those gets its own
  message; a sender that is in left-out rooms only gets nothing.
\<close>

theorem sender_receives_own_broadcast:
  assumes "ev \<in> set dispatch_events"
    and "receive srv c ev d = Some (Inr (srv', out))"
  shows "\<exists>eid e. get_prop d ''eventId'' = Inr eid \<and> to_string eid = Inr e \<and> srv' = srv
     \<and> (\<forall>p \<in> set room_prefixes.
           (p \<in> set (left_out ev) \<longrightarrow> p @ e \<notin> em_room ` set out)
         \<and> (p \<notin> set (left_out ev) \<longrightarrow>
               Emit (p @ e) (spec_out_event ev) (spec_out_payload ev d eid) \<in> set out
             \<and> (p @ e \<in> rooms (srv c) \<longrightarrow>
                  (spec_out_event ev, spec_out_payload ev d eid)
                    \<in> set (delivered srv out c))))
     \<and> (rooms (srv c) \<subseteq> (\<lambda>p. p @ e) ` set (left_out ev) \<longrightarrow> delivered srv out c = [])
     \<and> (\<forall>c'. receive srv c' ev d = Some (Inr (srv, out)))"
proof -
  from receive_dispatch_Inr [OF assms] obtain eid e
    where g: "get_prop d ''eventId'' = Inr eid" and t: "to_string eid = Inr e"
      and s: "srv' = srv"
      and out: "out = map (\<lambda>p. Emit (p @ e) (spec_out_event ev) (spec_out_payload ev d eid))
               (spec_destinations ev)"
    by blast
  note lo = left_out_complement [OF assms(1)]
  have rooms_out: "em_room ` set out = (\<lambda>p. p @ e) ` set (spec_destinations ev)"
    by (auto simp add: out image_iff)
  have dest: "set (spec_destinations ev) \<subseteq> set room_prefixes"
    by (rule spec_destinations_prefixes)
  have excluded: "p @ e \<notin> em_room ` set out"
    if "p \<in> set room_prefixes" and "p \<in> set (left_out ev)" for p
  proof
    assume "p @ e \<in> em_room ` set out"
    with rooms_out obtain q where q: "q \<in> set (spec_destinations ev)" and "p @ e = q @ e"
      by auto
    with that(1) dest room_name_inj [of p q e e] have "p = q" by auto
    with q that(2) lo show False by simp
  qed
  have included: "Emit (p @ e) (spec_out_event ev) (spec_out_payload ev d eid) \<in> set out
      \<and> (p @ e \<in> rooms (srv c) \<longrightarrow>
            (spec_out_event ev, spec_out_payload ev d eid) \<in> set (delivered srv out c))"
    if "p \<in> set room_prefixes" and "p \<notin> set (left_out ev)" for p
  proof -
    from that lo have "p \<in> set (spec_destinations ev)" by simp
    then have m: "Emit (p @ e) (spec_out_event ev) (spec_out_payload ev d eid) \<in> set out"
      by (simp add: out)
    from delivered_member [OF m, of srv c] m show ?thesis by simp
  qed
  have unreached: "delivered srv out c = []"
    if sub: "rooms (srv c) \<subseteq> (\<lambda>p. p @ e) ` set (left_out ev)"
  proof (rule delivered_none)
    fix m assume "m \<in> set out"
    then obtain q where q: "q \<in> set (spec_destinations ev)" and m: "em_room m = q @ e"
      by (auto simp add: out)
    show "em_room m \<notin> rooms (srv c)"
    proof
      assume "em_room m \<in> rooms (srv c)"
      with sub m obtain p where p: "p \<in> set (left_out ev)" and "q @ e = p @ e" by auto
      with q dest lo room_name_inj [of q p e e] show False by auto
    qed
  qed
  have same: "receive srv c' ev d = Some (Inr (srv, out))" for c'
  proof -
    from assms(2) s out receive_dispatch_exact [OF assms(1) g t, of srv c]
    have "\<not> (\<exists>k \<in> set (logged_fields ev). interp d k = Inl TypeError)"
      by (auto split: if_splits)
    with out receive_dispatch_exact [OF assms(1) g t, of srv c'] show ?thesis
      by simp
  qed
  have each: "\<forall>p \<in> set room_prefixes.
           (p \<in> set (left_out ev) \<longrightarrow> p @ e \<notin> em_room ` set out)
         \<and> (p \<notin> set (left_out ev) \<longrightarrow>
               Emit (p @ e) (spec_out_event ev) (spec_out_payload ev d eid) \<in> set out
             \<and> (p @ e \<in> rooms (srv c) \<longrightarrow>
                  (spec_out_event ev, spec_out_payload ev d eid)
                    \<in> set (delivered srv out c)))"
    using excluded included by blast
  have only: "rooms (srv c) \<subseteq> (\<lambda>p. p @ e) ` set (left_out ev) \<longrightarrow> delivered srv out c = []"
    using unreached by blast
  have anyone: "\<forall>c'. receive srv c' ev d = Some (Inr (srv, out))"
    using same by blast
  show ?thesis
    by (intro exI [of _ eid] exI [of _ e] conjI) (rule g t s each only anyone)+
qed

text \<open>
  The claim calls the announcer's room under \<^verbatim>\<open>performance:announced\<close> the only
  exclusion. A backstage connection that reorders performances does not get its own
  \<^verbatim>\<open>performance:reorder\<close>: the handler has no statement for \<^verbatim>\<open>backstage:\<close>.
  And a sender in the event room gets nothing when the handler throws on its payload.
\<close>

theorem backstage_sender_left_out:
  "''backstage:evt1'' \<in> rooms (only_member ''c1'' ''backstage:evt1'' ''c1'')
   \<and> receive (only_member ''c1'' ''backstage:evt1'') ''c1'' ''performance:reorder'' status_evt1
       = Some (Inr (only_member ''c1'' ''backstage:evt1'', reorder_sent ''evt1'' status_evt1))
   \<and> delivered (only_member ''c1'' ''backstage:evt1'')
         (reorder_sent ''evt1'' status_evt1) ''c1'' = []
   \<and> ''event:evt1'' \<in> rooms (only_member ''c1'' ''event:evt1'' ''c1'')
   \<and> get_prop status_unprintable ''eventId'' = Inr (JStr ''evt1'')
   \<and> receive (only_member ''c1'' ''event:evt1'') ''c1'' ''performance:status''
         status_unprintable
       = Some (Inl TypeError)"
proof -
  have "delivered (only_member ''c1'' ''backstage:evt1'')
         (reorder_sent ''evt1'' status_evt1) ''c1'' = []"
    by (simp add: delivered_def only_member_def socket_join_def new_socket_def
        reorder_sent_def)
  moreover have "receive (only_member ''c1'' ''event:evt1'') ''c1'' ''performance:status''
         status_unprintable = Some (Inl TypeError)"
    by (simp add: receive_def handler_def sent_def on_performance_status_eq interp_def
        status_unprintable_def)
  moreover have "get_prop status_unprintable ''eventId'' = Inr (JStr ''evt1'')"
    by (simp add: status_unprintable_def)
  ultimately show ?thesis
    by (simp add: reorder_evt1_received only_member_def socket_join_def)
qed

theorem sender_receives_own_broadcast_witness:
  "''performance:reorder'' \<in> set dispatch_events
   \<and> receive two_judges ''c2'' ''performance:reorder'' status_evt1
       = Some (Inr (two_judges, reorder_sent ''evt1'' status_evt1))
   \<and> ''judges:evt1'' \<in> rooms (two_judges ''c2'')
   \<and> (''performance:reorder'', status_evt1)
       \<in> set (delivered two_judges (reorder_sent ''evt1'' status_evt1) ''c2'')
   \<and> ''backstage:evt1'' \<notin> em_room ` set (reorder_sent ''evt1'' status_evt1)
   \<and> receive two_judges ''c3'' ''performance:reorder'' status_evt1
       = Some (Inr (two_judges, reorder_sent ''evt1'' status_evt1))
   \<and> receive (only_member ''c1'' ''backstage:evt1'') ''c1'' ''performance:reorder'' status_evt1
       = Some (Inr (only_member ''c1'' ''backstage:evt1'', reorder_sent ''evt1'' status_evt1))
   \<and> delivered (only_member ''c1'' ''backstage:evt1'')
         (reorder_sent ''evt1'' status_evt1) ''c1'' = []"
proof -
  have ev: "''performance:reorder'' \<in> set dispatch_events"
    by (simp add: dispatch_events_def forwarding_events_def)
  have g: "get_prop status_evt1 ''eventId'' = Inr (JStr ''evt1'')"
    by (simp add: status_evt1_def)
  have lo: "left_out ''performance:reorder'' = [''backstage:'']"
    by (simp add: left_out_def)
  have names: "spec_out_event ''performance:reorder'' = ''performance:reorder''"
    "spec_out_payload ''performance:reorder'' status_evt1 eid = status_evt1" for eid
    by (simp_all add: spec_out_event_def spec_out_payload_def)
  have pj: "''judges:'' \<in> set room_prefixes" and pb: "''backstage:'' \<in> set room_prefixes"
    by (simp_all add: room_prefixes_def)
  note r2 = reorder_evt1_received [of two_judges "''c2''"]
  note r1 = reorder_evt1_received [of "only_member ''c1'' ''backstage:evt1''" "''c1''"]
  have j: "''judges:evt1'' \<in> rooms (two_judges ''c2'')"
    by (simp add: two_judges_def socket_join_def new_socket_def)
  from sender_receives_own_broadcast [OF ev r2] g obtain e
    where e: "to_string (JStr ''evt1'') = Inr e"
      and each: "\<forall>p \<in> set room_prefixes.
           (p \<in> set (left_out ''performance:reorder'') \<longrightarrow>
              p @ e \<notin> em_room ` set (reorder_sent ''evt1'' status_evt1))
         \<and> (p \<notin> set (left_out ''performance:reorder'') \<longrightarrow>
               Emit (p @ e) (spec_out_event ''performance:reorder'')
                 (spec_out_payload ''performance:reorder'' status_evt1 (JStr ''evt1''))
                 \<in> set (reorder_sent ''evt1'' status_evt1)
             \<and> (p @ e \<in> rooms (two_judges ''c2'') \<longrightarrow>
                  (spec_out_event ''performance:reorder'',
                   spec_out_payload ''performance:reorder'' status_evt1 (JStr ''evt1''))
                    \<in> set (delivered two_judges (reorder_sent ''evt1'' status_evt1) ''c2'')))"
      and anyone: "\<forall>c'. receive two_judges c' ''performance:reorder'' status_evt1
          = Some (Inr (two_judges, reorder_sent ''evt1'' status_evt1))"
    by auto
  from e have ee: "e = ''evt1''" by simp
  from each [unfolded ee lo names] pj j
  have got: "(''performance:reorder'', status_evt1)
       \<in> set (delivered two_judges (reorder_sent ''evt1'' status_evt1) ''c2'')"
    by fastforce
  from each [unfolded ee lo names] pb
  have skipped: "''backstage:evt1'' \<notin> em_room ` set (reorder_sent ''evt1'' status_evt1)"
    by fastforce
  from anyone have c3: "receive two_judges ''c3'' ''performance:reorder'' status_evt1
       = Some (Inr (two_judges, reorder_sent ''evt1'' status_evt1))"
    by blast
  from sender_receives_own_broadcast [OF ev r1] g obtain e'
    where e': "to_string (JStr ''evt1'') = Inr e'"
      and only: "rooms (only_member ''c1'' ''backstage:evt1'' ''c1'')
            \<subseteq> (\<lambda>p. p @ e') ` set (left_out ''performance:reorder'')
          \<longrightarrow> delivered (only_member ''c1'' ''backstage:evt1'')
                (reorder_sent ''evt1'' status_evt1) ''c1'' = []"
    by auto
  from e' have ee': "e' = ''evt1''" by simp
  have "rooms (only_member ''c1'' ''backstage:evt1'' ''c1'')
      \<subseteq> (\<lambda>p. p @ ''evt1'') ` set [''backstage:'']"
    by (simp add: only_member_def socket_join_def new_socket_def)
  with only [unfolded ee' lo]
  have none: "delivered (only_member ''c1'' ''backstage:evt1'')
         (reorder_sent ''evt1'' status_evt1) ''c1'' = []"
    by blast
  from ev r2 j got skipped c3 r1 none show ?thesis by blast
qed

subsection \<open>How many names have a listener\<close>


end
